theory Spec2Isabelle
  imports Main
begin

section \<open>Common types\<close>

text \<open>
  An error value as JavaScript code sees it: the \<open>name\<close> of the thrown object and its
  \<open>message\<close>. A \<open>Blob\<close> is its sequence of bytes; \<open>new Blob(parts)\<close> is the
  concatenation of the parts.
\<close>

record js_error =
  err_name :: string
  err_message :: string

type_synonym blob = "nat list"

definition new_Blob :: "blob list \<Rightarrow> blob" where
  "new_Blob parts = concat parts"

text \<open>
  The outcome of a promise once it has settled. An \<open>await\<close> of a rejected promise throws
  the rejection reason at the place of the \<open>await\<close>.
\<close>

datatype 'a promise = Resolved 'a | Rejected js_error

text \<open>
  What the executor passed to \<open>new Promise\<close> ends up doing: it calls \<open>resolve\<close>, it
  calls \<open>reject\<close>, or it throws before either (the constructor turns that throw into a
  rejection of the new promise).
\<close>

datatype 'a executor_result =
  Calls_resolve 'a | Calls_reject js_error | Executor_throws js_error

definition new_Promise :: "'a executor_result \<Rightarrow> 'a promise" where
  "new_Promise r =
     (case r of
        Calls_resolve v \<Rightarrow> Resolved v
      | Calls_reject e \<Rightarrow> Rejected e
      | Executor_throws e \<Rightarrow> Rejected e)"

text \<open>
  The shape shared by every function of \<open>services/db.ts\<close>:
  \<^verbatim>\<open>
  async (...) => {
    try {
      const db = await initDB();
      return new Promise(...);      // returned, not awaited
    } catch (e) { return fallback; }
  }
  \<close>
  A rejection of the awaited promise is thrown inside \<open>try\<close> and reaches \<open>catch\<close>.
  The promise built in the \<open>return\<close> statement is handed back without \<open>await\<close>: the
  \<open>try\<close> block is left as soon as the promise object exists, and the promise of the
  async function then follows that promise, its rejection included.
\<close>

definition async_try_await_return ::
  "'a promise \<Rightarrow> ('a \<Rightarrow> 'b promise) \<Rightarrow> (js_error \<Rightarrow> 'b promise) \<Rightarrow> 'b promise" where
  "async_try_await_return awaited body handler =
     (case awaited of
        Rejected e \<Rightarrow> handler e
      | Resolved x \<Rightarrow> body x)"

section \<open>The durable store (services/db.ts)\<close>

text \<open>
  The three object stores of \<open>SecureWorkDB\<close>: \<open>session_chunks\<close> holds the recovery chunks
  under the one key \<open>'active_session'\<close>, \<open>session_logs\<close> holds \<open>{sessionId, logs}\<close>
  records keyed by \<open>sessionId\<close>, \<open>session_videos\<close> holds blobs keyed by session id.
\<close>

text \<open>The fields are named after the constants \<open>STORE_CHUNKS\<close>, \<open>STORE_LOGS\<close>, \<open>STORE_VIDEOS\<close>.\<close>

record 'l database =
  store_chunks :: "blob list option"
  store_logs :: "string \<rightharpoonup> 'l list"
  store_videos :: "string \<rightharpoonup> blob"

text \<open>
  What the browser does with one call, as far as the code can observe it:
  \<open>indexedDB.open\<close> fires \<open>onsuccess\<close> or \<open>onerror\<close>; \<open>db.transaction\<close> may throw;
  the request (or the transaction, for a write) fires its success or its error event.
\<close>

datatype 'l open_outcome = OpenSuccess "'l database" | OpenError js_error

record 'l idb_env =
  open_request :: "'l open_outcome"
  transaction_throws :: "js_error option"
  request_error :: "js_error option"

definition initDB :: "'l idb_env \<Rightarrow> 'l database promise" where
  "initDB env =
     new_Promise (case open_request env of
                    OpenSuccess db \<Rightarrow> Calls_resolve db
                  | OpenError e \<Rightarrow> Calls_reject e)"

text \<open>
  The body of the promise of a read: \<open>db.transaction(..)\<close>, \<open>.get(key)\<close>, then
  \<open>req.onsuccess = () => resolve(f(req.result))\<close> and
  \<open>req.onerror = () => reject(req.error)\<close>.
\<close>

definition read_request :: "'l idb_env \<Rightarrow> 'r \<Rightarrow> 'r promise" where
  "read_request env result =
     new_Promise (case transaction_throws env of
                    Some e \<Rightarrow> Executor_throws e
                  | None \<Rightarrow> (case request_error env of
                               Some e \<Rightarrow> Calls_reject e
                             | None \<Rightarrow> Calls_resolve result))"

definition getVideoFromDB :: "'l idb_env \<Rightarrow> string \<Rightarrow> blob option promise" where
  "getVideoFromDB env sessionId =
     async_try_await_return (initDB env)
       (\<lambda>db. read_request env (store_videos db sessionId))
       (\<lambda>e. Resolved None)"

text \<open>\<open>req.result?.logs || []\<close>: no record under the key gives the empty list.\<close>

definition getLogsFromDB :: "'l idb_env \<Rightarrow> string \<Rightarrow> 'l list promise" where
  "getLogsFromDB env sessionId =
     async_try_await_return (initDB env)
       (\<lambda>db. read_request env
                (case store_logs db sessionId of None \<Rightarrow> [] | Some ls \<Rightarrow> ls))
       (\<lambda>e. Resolved [])"

definition loadRecoveryChunks :: "'l idb_env \<Rightarrow> blob list promise" where
  "loadRecoveryChunks env =
     async_try_await_return (initDB env)
       (\<lambda>db. read_request env
                (case store_chunks db of None \<Rightarrow> [] | Some cs \<Rightarrow> cs))
       (\<lambda>e. Resolved [])"

text \<open>
  The writes have the same shape; the promise settles on the transaction's
  \<open>oncomplete\<close> / \<open>onerror\<close>, and the \<open>catch\<close> only logs, so an open failure
  resolves to \<open>undefined\<close>. Only the way the promise settles is modelled here: what
  was handed over to be written is recorded by the caller's model below.
\<close>

definition write_request :: "'l idb_env \<Rightarrow> unit promise" where
  "write_request env =
     new_Promise (case transaction_throws env of
                    Some e \<Rightarrow> Executor_throws e
                  | None \<Rightarrow> (case request_error env of
                               Some e \<Rightarrow> Calls_reject e
                             | None \<Rightarrow> Calls_resolve ()))"

definition saveVideoToDB :: "'l idb_env \<Rightarrow> string \<Rightarrow> blob \<Rightarrow> unit promise" where
  "saveVideoToDB env sessionId b =
     async_try_await_return (initDB env) (\<lambda>db. write_request env) (\<lambda>e. Resolved ())"

definition saveLogsToDB :: "'l idb_env \<Rightarrow> string \<Rightarrow> 'l list \<Rightarrow> unit promise" where
  "saveLogsToDB env sessionId ls =
     async_try_await_return (initDB env) (\<lambda>db. write_request env) (\<lambda>e. Resolved ())"

definition saveRecoveryChunks :: "'l idb_env \<Rightarrow> blob list \<Rightarrow> unit promise" where
  "saveRecoveryChunks env chunks =
     async_try_await_return (initDB env) (\<lambda>db. write_request env) (\<lambda>e. Resolved ())"

text \<open>
  \<open>clearRecoveryChunks\<close> awaits \<open>initDB\<close> and then calls \<open>db.transaction\<close> and
  \<open>.delete\<close> inside the \<open>try\<close>, builds no promise of its own, and has an empty
  \<open>catch\<close>: a failed open and a throwing \<open>db.transaction\<close> are both swallowed.
\<close>

definition clearRecoveryChunks :: "'l idb_env \<Rightarrow> unit promise" where
  "clearRecoveryChunks env =
     (case initDB env of
        Rejected e \<Rightarrow> Resolved ()
      | Resolved db \<Rightarrow> (case transaction_throws env of
                         Some e \<Rightarrow> Resolved ()
                       | None \<Rightarrow> Resolved ()))"

text \<open>An example database and a request error, for evaluating the reads.\<close>

definition demo_db :: "nat database" where
  "demo_db = \<lparr> store_chunks = Some [ [1, 2] ],
               store_logs = [''s1'' \<mapsto> [7]],
               store_videos = [''s1'' \<mapsto> [1, 2, 3]] \<rparr>"

definition read_failure :: js_error where
  "read_failure = \<lparr> err_name = ''UnknownError'', err_message = ''read failed'' \<rparr>"

definition env_open_fails :: "nat idb_env" where
  "env_open_fails = \<lparr> open_request = OpenError read_failure,
                      transaction_throws = None, request_error = None \<rparr>"

definition env_request_fails :: "nat idb_env" where
  "env_request_fails = \<lparr> open_request = OpenSuccess demo_db,
                         transaction_throws = None, request_error = Some read_failure \<rparr>"

section \<open>Shared data (types.ts)\<close>

text \<open>
  JavaScript numbers that hold counts of seconds and millisecond timestamps are
  integers here. The \<open>id\<close> of a log is \<open>Date.now().toString()\<close>: \<open>log_id\<close> is the
  number whose decimal digits form that string. \<open>log_type\<close> is the field \<open>type\<close>.

  The interface declares \<open>category\<close>, \<open>message\<close> and \<open>confidence\<close> as strings, but
  the sampler copies them from the classifier's result, which nothing checks: at run
  time each of them is a string or \<open>undefined\<close> (\<open>None\<close>). The overview reads the
  category as \<open>log.category || ''\<close>.
\<close>

datatype log_kind = compliance | activity | meeting

record SessionLog =
  log_id :: int
  resourceId :: "string option"
  timestamp :: int
  log_type :: log_kind
  category :: "string option"
  isCameraOn :: bool
  message :: "string option"
  confidence :: "string option"
  thumbnail :: "string option"

datatype session_status = processing | secure | expired

text \<open>\<open>RecordedSession\<close>; its \<open>id\<close>, \<open>resourceId\<close>, \<open>status\<close> and \<open>logs\<close> carry the prefix \<open>rs_\<close>.\<close>

record RecordedSession =
  rs_id :: string
  rs_resourceId :: string
  startTime :: int
  duration :: int
  rs_status :: session_status
  fileSize :: string
  expiryTime :: int
  rs_logs :: "SessionLog list"
  videoUrl :: "string option"

datatype MonitoringState = IDLE | RECORDING | PAUSED | UPLOADING

text \<open>
  \<open>AnalysisResult\<close> declares three string properties. The value the code holds under
  that type comes from \<open>JSON.parse\<close> through a cast, so at run time it is any JSON
  value: \<open>null\<close>; an object, of which the three properties the code reads are kept,
  \<open>None\<close> for a property that is absent (reading it gives \<open>undefined\<close>); or a value
  on which none of the three properties is defined (a boolean, a number, a string, an
  array), of which only whether it is truthy is kept. The response schema sent with
  the request declares the three properties as strings without requiring any of them: a
  property that is present is taken to be a string. \<open>category_of\<close> is the property
  \<open>category\<close>.
\<close>

record AnalysisResult =
  summary :: "string option"
  category_of :: "string option"
  riskLevel :: "string option"

datatype js_value = JsNull | JsObject AnalysisResult | JsOther bool

text \<open>
  Reading a property: a \<open>TypeError\<close> on \<open>null\<close>, the property (or \<open>undefined\<close>) on
  every other value.
\<close>

definition read_property ::
  "(AnalysisResult \<Rightarrow> string option) \<Rightarrow> js_value \<Rightarrow> js_error + string option" where
  "read_property field v =
     (case v of
        JsNull \<Rightarrow> Inl \<lparr> err_name = ''TypeError'',
                        err_message = ''Cannot read properties of null'' \<rparr>
      | JsObject r \<Rightarrow> Inr (field r)
      | JsOther truthy \<Rightarrow> Inr None)"

section \<open>The classification call (services/geminiService.ts, in unnamed/part_000)\<close>

text \<open>
  The collaborators of \<open>analyzeSessionContext\<close>: the environment variable \<open>API_KEY\<close>, the
  remote call \<open>ai.models.generateContent\<close> (a promise of the response's \<open>text\<close>, which may
  be \<open>undefined\<close>), and \<open>JSON.parse\<close>, which throws a \<open>SyntaxError\<close> on text that is not
  JSON and returns the parsed value otherwise. That value is cast to \<open>AnalysisResult\<close>
  without a check and returned as it is.
\<close>

record audio_data =
  base64 :: string
  mimeType :: string

datatype part = InlineData string string | TextPart string

record classify_env =
  API_KEY :: "string option"
  generateContent :: "part list \<Rightarrow> string option promise"
  JSON_parse :: "string \<Rightarrow> js_error + js_value"

text \<open>\<open>if (!apiKey) throw new Error(..)\<close>: an unset and an empty key are both falsy.\<close>

definition getClient :: "classify_env \<Rightarrow> js_error + string" where
  "getClient env =
     (case API_KEY env of
        None \<Rightarrow> Inl \<lparr> err_name = ''Error'', err_message = ''API_KEY not found in environment'' \<rparr>
      | Some apiKey \<Rightarrow>
          if apiKey = [] then
            Inl \<lparr> err_name = ''Error'', err_message = ''API_KEY not found in environment'' \<rparr>
          else Inr apiKey)"

text \<open>
  The request: the image, the audio when there is one, and the instruction text, whose
  first sentence depends on the audio; the fixed list of categories and of fields that
  follows in the source is not reproduced.
\<close>

definition prompt :: "audio_data option \<Rightarrow> string" where
  "prompt audioData =
     ''Analyze this snapshot of an employee's screen '' @
     (if audioData \<noteq> None then ''and the accompanying audio snippet'' else '''') @ ''. ''"

definition request_parts :: "string \<Rightarrow> audio_data option \<Rightarrow> part list" where
  "request_parts base64Image audioData =
     [InlineData ''image/png'' base64Image] @
     (case audioData of
        None \<Rightarrow> []
      | Some a \<Rightarrow> [InlineData (mimeType a) (base64 a)]) @
     [TextPart (prompt audioData)]"

text \<open>The body of the \<open>try\<close> block: \<open>Inl\<close> is an exception on its way to \<open>catch\<close>.\<close>

definition analyze_try :: "classify_env \<Rightarrow> string \<Rightarrow> audio_data option \<Rightarrow> js_error + js_value" where
  "analyze_try env base64Image audioData =
     (case getClient env of
        Inl e \<Rightarrow> Inl e
      | Inr ai \<Rightarrow>
          (case generateContent env (request_parts base64Image audioData) of
             Rejected e \<Rightarrow> Inl e
           | Resolved response_text \<Rightarrow>
               (case response_text of
                  None \<Rightarrow> Inl \<lparr> err_name = ''Error'', err_message = ''No response text'' \<rparr>
                | Some t \<Rightarrow>
                    if t \<noteq> [] then JSON_parse env t
                    else Inl \<lparr> err_name = ''Error'', err_message = ''No response text'' \<rparr>)))"

definition fallback_result :: js_value where
  "fallback_result =
     JsObject \<lparr> summary = Some ''AI analysis temporarily unavailable.'',
                category_of = Some ''Work'',
                riskLevel = Some ''low'' \<rparr>"

definition analyzeSessionContext ::
  "classify_env \<Rightarrow> string \<Rightarrow> audio_data option \<Rightarrow> js_value promise" where
  "analyzeSessionContext env base64Image audioData =
     (case analyze_try env base64Image audioData of
        Inr result \<Rightarrow> Resolved result
      | Inl error \<Rightarrow> Resolved fallback_result)"


section \<open>The analytics overview of the Vault (in unnamed/part_002)\<close>

text \<open>
  \<open>String.prototype.toLowerCase\<close> on the ASCII letters (the seven category keys are
  ASCII; other characters are left as they are).
\<close>

definition lower_char :: "char \<Rightarrow> char" where
  "lower_char c =
     (let n = (of_char c :: nat) in if 65 \<le> n \<and> n \<le> 90 then char_of (n + 32) else c)"

definition toLowerCase :: "string \<Rightarrow> string" where
  "toLowerCase s = map lower_char s"

definition filteredSessionsForAnalytics :: "RecordedSession list \<Rightarrow> string \<Rightarrow> RecordedSession list" where
  "filteredSessionsForAnalytics sessions selectedAnalyticsUser =
     filter (\<lambda>s. if selectedAnalyticsUser = ''all'' then True
                  else rs_resourceId s = selectedAnalyticsUser) sessions"

text \<open>The three accumulators of the two nested \<open>forEach\<close> loops.\<close>

record overview_acc =
  totalDurationSeconds :: int
  cameraOnSeconds :: int
  categoryStats :: "(string \<times> int) list"

definition initial_acc :: overview_acc where
  "initial_acc =
     \<lparr> totalDurationSeconds = 0, cameraOnSeconds = 0,
       categoryStats = [(''Coding'', 0), (''Study'', 0), (''Training'', 0), (''Meeting'', 0),
                        (''Work'', 0), (''Idle'', 0), (''Other'', 0)] \<rparr>"

definition stats_key :: "(string \<times> int) list \<Rightarrow> string \<Rightarrow> string" where
  "stats_key stats cat =
     (case find (\<lambda>k. toLowerCase k = toLowerCase cat) (map fst stats) of
        Some k \<Rightarrow> k
      | None \<Rightarrow> ''Other'')"

definition add_to_key :: "string \<Rightarrow> int \<Rightarrow> (string \<times> int) list \<Rightarrow> (string \<times> int) list" where
  "add_to_key key d stats = map (\<lambda>(k, v). if k = key then (k, v + d) else (k, v)) stats"

text \<open>\<open>log.category || ''\<close>: \<open>undefined\<close> and the empty string give the empty string.\<close>

definition category_or_empty :: "SessionLog \<Rightarrow> string" where
  "category_or_empty l = (case category l of None \<Rightarrow> [] | Some c \<Rightarrow> c)"

definition overview_log :: "overview_acc \<Rightarrow> SessionLog \<Rightarrow> overview_acc" where
  "overview_log acc l =
     (let d = (if category l = Some ''Idle'' then 60 else 15) in
      acc\<lparr> cameraOnSeconds := (if isCameraOn l then cameraOnSeconds acc + d
                                else cameraOnSeconds acc),
           categoryStats := add_to_key (stats_key (categoryStats acc) (category_or_empty l)) d
                              (categoryStats acc) \<rparr>)"

definition overview_session :: "overview_acc \<Rightarrow> RecordedSession \<Rightarrow> overview_acc" where
  "overview_session acc session =
     foldl overview_log
       (acc\<lparr> totalDurationSeconds := totalDurationSeconds acc + duration session \<rparr>)
       (rs_logs session)"

record overview =
  totalDuration :: int
  cameraDuration :: int
  categories :: "(string \<times> int) list"
  sessionCount :: nat

definition analyticsOverview :: "RecordedSession list \<Rightarrow> overview" where
  "analyticsOverview filtered =
     (let acc = foldl overview_session initial_acc filtered in
      \<lparr> totalDuration = totalDurationSeconds acc,
        cameraDuration = min (cameraOnSeconds acc) (totalDurationSeconds acc),
        categories = categoryStats acc,
        sessionCount = length filtered \<rparr>)"

section \<open>The live monitor (component LiveMonitor, in components/ui/Header.tsx)\<close>

subsection \<open>State\<close>

text \<open>
  A media stream is named by a number; \<open>liveStreams\<close> below is the set of streams whose
  tracks have not been stopped, so \<open>stream.active\<close> is membership in it.
\<close>

type_synonym stream = nat

datatype RecordingState = inactive | recording | paused

text \<open>
  \<open>stopMonitoring\<close> is a \<open>useCallback\<close> over \<open>elapsedTime\<close>, \<open>logs\<close> and
  \<open>activeSessionId\<close>: a call of it works with the three values of the render in which
  that function object was created. The \<open>onstop\<close> handler it installs closes over the
  same three values.
\<close>

record StopClosure =
  closure_sessionId :: string
  closure_elapsedTime :: int
  closure_logs :: "SessionLog list"

text \<open>
  A \<open>MediaRecorder\<close>: its \<open>state\<close>, the installed \<open>onstop\<close> handler, and whether
  \<open>stop()\<close> has queued the task that delivers the last \<open>dataavailable\<close> event followed by
  the \<open>stop\<close> event.
\<close>

record MediaRecorder =
  rec_state :: RecordingState
  onstop :: "StopClosure option"
  stop_queued :: bool

text \<open>The value kept under the \<open>localStorage\<close> key \<open>sw_session_meta\<close>.\<close>

record RecoveryMeta =
  meta_elapsedTime :: int
  meta_logs :: "SessionLog list"
  meta_timestamp :: int
  wasRecording :: bool

datatype loop = SegmentationLoop | CompositorLoop

text \<open>
  What the component does to the world outside it, in the order in which it does it:
  the \<open>alert\<close>s, the writes to \<open>localStorage\<close>, the calls of the durable store (with
  their arguments) and the calls of \<open>onSessionComplete\<close>. The object URL of the video is
  represented by the blob it refers to.
\<close>

datatype effect =
    Alert string
  | SetSessionMeta RecoveryMeta
  | RemoveSessionMeta
  | SaveRecoveryChunks "blob list"
  | SaveLogsToDB string "SessionLog list"
  | SaveVideoToDB string blob
  | ClearRecoveryChunks
  | SessionComplete string int "SessionLog list" "blob option"

text \<open>
  The component: its React state, its refs, and the part of the browser it acts on
  (\<open>liveStreams\<close>, the \<open>localStorage\<close> entry, the trace of effects). \<open>timerRef\<close> tells
  whether the 1-second interval is registered; \<open>analysisIntervalRef\<close> holds the period
  of the registered sampling interval. \<open>isCameraEnabledRef\<close> mirrors
  \<open>isCameraEnabled\<close> and is not kept apart, and \<open>stateRef\<close> mirrors \<open>status\<close>,
  \<open>elapsedTime\<close> and \<open>logs\<close>. \<open>screenTrack_onended\<close> is the handler put
  on the screen-share track, with the values its \<open>stopMonitoring\<close> closes over.
  \<open>firstRenderSessionId\<close> is the \<open>activeSessionId\<close> of the first render: the
  cleanup of the mount effect calls the \<open>saveSessionToStorage\<close> of that render.
\<close>

record LiveMonitor =
  username :: string
  status :: MonitoringState
  elapsedTime :: int
  logs :: "SessionLog list"
  currentAnalysis :: js_value
  showRecovery :: bool
  recoveryMeta :: "RecoveryMeta option"
  isCameraEnabled :: bool
  isIdle :: bool
  activeSessionId :: string
  firstRenderSessionId :: string
  lastActivityRef :: int
  timerRef :: bool
  analysisIntervalRef :: "nat option"
  loopsRef :: "loop list"
  segmentationRef :: bool
  isSegmentationReadyRef :: bool
  chunksRef :: "blob list"
  mediaRecorderRef :: "MediaRecorder option"
  streamRef :: "stream option"
  screenStreamRef :: "stream option"
  rawCameraStreamRef :: "stream option"
  processedCameraStreamRef :: "stream option"
  screenTrack_onended :: "StopClosure option"
  liveStreams :: "stream set"
  sw_session_meta :: "RecoveryMeta option"
  effects :: "effect list"

definition emit :: "effect \<Rightarrow> LiveMonitor \<Rightarrow> LiveMonitor" where
  "emit e s = s\<lparr> effects := effects s @ [e] \<rparr>"

definition closure_of :: "LiveMonitor \<Rightarrow> StopClosure" where
  "closure_of s =
     \<lparr> closure_sessionId = activeSessionId s,
       closure_elapsedTime = elapsedTime s,
       closure_logs = logs s \<rparr>"

subsection \<open>Mount and recovery\<close>

text \<open>
  The first render: \<open>useState(() => crypto.randomUUID())\<close> gives the component a
  session id already at mount.
\<close>

definition initial_monitor :: "string \<Rightarrow> string \<Rightarrow> int \<Rightarrow> LiveMonitor" where
  "initial_monitor user uuid now =
     \<lparr> username = user, status = IDLE, elapsedTime = 0, logs = [],
       currentAnalysis = JsNull, showRecovery = False, recoveryMeta = None,
       isCameraEnabled = True, isIdle = False, activeSessionId = uuid,
       firstRenderSessionId = uuid, lastActivityRef = now, timerRef = False, analysisIntervalRef = None,
       loopsRef = [], segmentationRef = False, isSegmentationReadyRef = False,
       chunksRef = [], mediaRecorderRef = None, streamRef = None,
       screenStreamRef = None, rawCameraStreamRef = None,
       processedCameraStreamRef = None, screenTrack_onended = None,
       liveStreams = {}, sw_session_meta = None, effects = [] \<rparr>"

definition checkSavedSession :: "int \<Rightarrow> LiveMonitor \<Rightarrow> LiveMonitor" where
  "checkSavedSession now s =
     (case sw_session_meta s of
        None \<Rightarrow> s
      | Some parsed \<Rightarrow>
          if now - meta_timestamp parsed < 259200000
          then s\<lparr> recoveryMeta := Some parsed, showRecovery := True \<rparr>
          else s)"

text \<open>
  The page is loaded again (after a crash or a reload) and the user has logged in
  again: the component starts from its initial state with a new id, \<open>localStorage\<close>
  and what was already done to the world remain, the streams of the old page are gone.
\<close>

definition reload :: "string \<Rightarrow> int \<Rightarrow> LiveMonitor \<Rightarrow> LiveMonitor" where
  "reload uuid now s =
     checkSavedSession now
       ((initial_monitor (username s) uuid now)
          \<lparr> sw_session_meta := sw_session_meta s, effects := effects s \<rparr>)"

text \<open>
  The component is mounted again on the same page (a login after a logout): a new
  instance with a new id and empty refs. The browser's streams stay as they are: what
  the old instance left running is no longer referred to by anything.
\<close>

definition mount :: "string \<Rightarrow> string \<Rightarrow> int \<Rightarrow> LiveMonitor \<Rightarrow> LiveMonitor" where
  "mount user uuid now s =
     checkSavedSession now
       ((initial_monitor user uuid now)
          \<lparr> liveStreams := liveStreams s, sw_session_meta := sw_session_meta s,
            effects := effects s \<rparr>)"

definition stripThumbnail :: "SessionLog \<Rightarrow> SessionLog" where
  "stripThumbnail l = l\<lparr> thumbnail := None \<rparr>"

text \<open>
  \<open>saveSessionToStorage\<close>; \<open>sessionId\<close> is the \<open>activeSessionId\<close> of the render whose
  function is called, \<open>now\<close> is \<open>Date.now()\<close>.
\<close>

definition saveSessionToStorage ::
  "string \<Rightarrow> int \<Rightarrow> int \<Rightarrow> SessionLog list \<Rightarrow> blob list \<Rightarrow> LiveMonitor \<Rightarrow> LiveMonitor" where
  "saveSessionToStorage sessionId now time currentLogs chunks s =
     (let meta = \<lparr> meta_elapsedTime = time,
                   meta_logs = map stripThumbnail currentLogs,
                   meta_timestamp = now,
                   wasRecording = True \<rparr>;
          s1 = emit (SetSessionMeta meta) (s\<lparr> sw_session_meta := Some meta \<rparr>);
          s2 = (if chunks \<noteq> [] then emit (SaveRecoveryChunks chunks) s1 else s1)
      in if currentLogs \<noteq> [] then emit (SaveLogsToDB sessionId currentLogs) s2 else s2)"

text \<open>
  \<open>handleResumeSession\<close>; \<open>loaded\<close> is what \<open>await loadRecoveryChunks()\<close> gives. When
  that promise rejects, the handler ends at the \<open>await\<close>, after the first two updates.
\<close>

definition handleResumeSession ::
  "int \<Rightarrow> blob list promise \<Rightarrow> LiveMonitor \<Rightarrow> LiveMonitor" where
  "handleResumeSession now loaded s =
     (case recoveryMeta s of
        None \<Rightarrow> s
      | Some m \<Rightarrow>
          (let s1 = s\<lparr> elapsedTime := meta_elapsedTime m, logs := meta_logs m \<rparr> in
           case loaded of
             Rejected e \<Rightarrow> s1
           | Resolved savedChunks \<Rightarrow>
               s1\<lparr> chunksRef := savedChunks, lastActivityRef := now, status := PAUSED,
                    showRecovery := False, recoveryMeta := None \<rparr>))"

definition handleDiscardSession :: "LiveMonitor \<Rightarrow> LiveMonitor" where
  "handleDiscardSession s =
     (emit RemoveSessionMeta (emit ClearRecoveryChunks s))
       \<lparr> sw_session_meta := None, showRecovery := False, recoveryMeta := None \<rparr>"

subsection \<open>Periodic tasks\<close>

text \<open>
  The listener put on \<open>window\<close> for \<open>mousemove\<close>, \<open>keydown\<close>, \<open>click\<close>, \<open>scroll\<close>
  and \<open>touchstart\<close>; \<open>now\<close> is its reading of \<open>Date.now()\<close>.
\<close>

definition handleActivity :: "int \<Rightarrow> LiveMonitor \<Rightarrow> LiveMonitor" where
  "handleActivity now s = s\<lparr> lastActivityRef := now \<rparr>"

text \<open>The callback of the 1-second interval held by \<open>timerRef\<close>.\<close>

definition timer_tick :: "LiveMonitor \<Rightarrow> LiveMonitor" where
  "timer_tick s = s\<lparr> elapsedTime := elapsedTime s + 1 \<rparr>"

definition IDLE_THRESHOLD :: int where
  "IDLE_THRESHOLD = 5 * 60 * 1000"

definition checkIdleInterval_ms :: nat where
  "checkIdleInterval_ms = 5000"

text \<open>Both places that create a log put it in front: \<open>setLogs(prev => [newLog, ...prev])\<close>.\<close>

definition add_log :: "SessionLog \<Rightarrow> LiveMonitor \<Rightarrow> LiveMonitor" where
  "add_log newLog s = s\<lparr> logs := newLog # logs s \<rparr>"

definition idle_log :: "LiveMonitor \<Rightarrow> bool \<Rightarrow> int \<Rightarrow> int \<Rightarrow> SessionLog" where
  "idle_log s currentlyIdle id_now ts_now =
     \<lparr> log_id = id_now,
       resourceId = Some (username s),
       timestamp = ts_now,
       log_type = activity,
       category = Some (if currentlyIdle then ''Idle'' else ''Work''),
       isCameraOn = isCameraEnabled s,
       message = Some (if currentlyIdle then ''Idle detected: Reducing analysis frequency''
                       else ''User Active: Resuming standard analysis''),
       confidence = Some ''low'',
       thumbnail = None \<rparr>"

text \<open>
  The callback of the idle check; \<open>now\<close>, \<open>id_now\<close> and \<open>ts_now\<close> are its three readings
  of \<open>Date.now()\<close>.
\<close>

definition checkIdle :: "int \<Rightarrow> int \<Rightarrow> int \<Rightarrow> LiveMonitor \<Rightarrow> LiveMonitor" where
  "checkIdle now id_now ts_now s =
     (if status s \<noteq> RECORDING then s
      else
        (let timeSinceLastActivity = now - lastActivityRef s;
             currentlyIdle = (timeSinceLastActivity > IDLE_THRESHOLD)
         in if isIdle s \<noteq> currentlyIdle
            then (add_log (idle_log s currentlyIdle id_now ts_now) s)\<lparr> isIdle := currentlyIdle \<rparr>
            else s))"

definition frequency :: "bool \<Rightarrow> nat" where
  "frequency idle = (if idle then 60000 else 15000)"

text \<open>
  \<open>startAnalysisLoop\<close> clears the registered sampling interval and registers one with
  the period chosen from the \<open>isIdle\<close> its closure holds.
\<close>

definition startAnalysisLoop :: "bool \<Rightarrow> LiveMonitor \<Rightarrow> LiveMonitor" where
  "startAnalysisLoop idle s = s\<lparr> analysisIntervalRef := Some (frequency idle) \<rparr>"

text \<open>
  The effect with the dependencies \<open>[isIdle, status, startAnalysisLoop]\<close>, run after a
  render in which one of them changed: it restarts the sampling loop while recording.
\<close>

definition analysis_effect :: "LiveMonitor \<Rightarrow> LiveMonitor \<Rightarrow> LiveMonitor" where
  "analysis_effect prev cur =
     (if isIdle prev \<noteq> isIdle cur \<or> status prev \<noteq> status cur
      then (if status cur = RECORDING then startAnalysisLoop (isIdle cur) cur else cur)
      else cur)"

text \<open>The callback of the 10-second checkpoint interval.\<close>

definition checkpoint :: "int \<Rightarrow> LiveMonitor \<Rightarrow> LiveMonitor" where
  "checkpoint now s =
     (if status s = RECORDING \<or> status s = PAUSED
      then saveSessionToStorage (activeSessionId s) now (elapsedTime s) (logs s) (chunksRef s) s
      else s)"

text \<open>\<open>recorder.ondataavailable\<close>.\<close>

definition ondataavailable :: "blob \<Rightarrow> LiveMonitor \<Rightarrow> LiveMonitor" where
  "ondataavailable data s =
     (if length data > 0 then s\<lparr> chunksRef := chunksRef s @ [data] \<rparr> else s)"

subsection \<open>The analysis sampler\<close>

text \<open>
  What one run of the sampling callback meets: whether the screen video and the snapshot
  canvas are mounted, whether the canvas gives a 2d context, the two encoded images,
  what \<open>captureAudioSnapshot\<close> resolves to, what \<open>blobToBase64\<close> settles to, the
  classifier's collaborators, and the two readings of \<open>Date.now()\<close>.
\<close>

record SampleEnv =
  refs_mounted :: bool
  context_2d :: bool
  thumbnailBase64 :: string
  imageBase64 :: string
  audio_snapshot :: "(blob \<times> string) option"
  blobToBase64 :: "string promise"
  classifier :: classify_env
  sample_id_now :: int
  sample_ts_now :: int

text \<open>
  The log built from a result that is not \<open>null\<close>, whose three properties read as
  \<open>cat\<close>, \<open>msg\<close> and \<open>risk\<close>.
\<close>

definition analysis_log ::
  "LiveMonitor \<Rightarrow> SampleEnv \<Rightarrow> string option \<Rightarrow> string option \<Rightarrow> string option \<Rightarrow> SessionLog" where
  "analysis_log s env cat msg risk =
     \<lparr> log_id = sample_id_now env,
       resourceId = Some (username s),
       timestamp = sample_ts_now env,
       log_type = (if cat = Some ''Meeting'' then meeting else activity),
       category = cat,
       isCameraOn = isCameraEnabled s,
       message = msg,
       confidence = risk,
       thumbnail = Some (thumbnailBase64 env) \<rparr>"

text \<open>
  The end of the callback, from \<open>setCurrentAnalysis(result)\<close> on. The object literal of
  the new log reads \<open>result.category\<close> first: on \<open>null\<close> that read throws, after the
  update of \<open>currentAnalysis\<close> and before \<open>setLogs\<close>.
\<close>

definition record_result ::
  "SampleEnv \<Rightarrow> js_value \<Rightarrow> LiveMonitor \<Rightarrow> js_error option \<times> LiveMonitor" where
  "record_result env result s =
     (let s1 = s\<lparr> currentAnalysis := result \<rparr> in
      case read_property category_of result of
        Inl e \<Rightarrow> (Some e, s1)
      | Inr cat \<Rightarrow>
          (case read_property summary result of
             Inl e \<Rightarrow> (Some e, s1)
           | Inr msg \<Rightarrow>
               (case read_property riskLevel result of
                  Inl e \<Rightarrow> (Some e, s1)
                | Inr risk \<Rightarrow> (None, add_log (analysis_log s env cat msg risk) s1))))"

definition sample_audio :: "SampleEnv \<Rightarrow> LiveMonitor \<Rightarrow> js_error + audio_data option" where
  "sample_audio env s =
     (if (case rawCameraStreamRef s of None \<Rightarrow> False | Some u \<Rightarrow> u \<in> liveStreams s)
      then (case audio_snapshot env of
              None \<Rightarrow> Inr None
            | Some (b, mt) \<Rightarrow>
                (case blobToBase64 env of
                   Rejected e \<Rightarrow> Inl e
                 | Resolved b64 \<Rightarrow> Inr (Some \<lparr> base64 = b64, mimeType = mt \<rparr>)))
      else Inr None)"

text \<open>
  The sampling callback: the state it leaves, and the reason with which the promise it
  returns rejects, if it does (nobody handles that rejection).
\<close>

definition analysis_tick :: "SampleEnv \<Rightarrow> LiveMonitor \<Rightarrow> js_error option \<times> LiveMonitor" where
  "analysis_tick env s =
     (if \<not> refs_mounted env then (None, s)
      else if \<not> context_2d env then (None, s)
      else
        (case sample_audio env s of
           Inl e \<Rightarrow> (Some e, s)
         | Inr audioData \<Rightarrow>
             (case analyzeSessionContext (classifier env) (imageBase64 env) audioData of
                Rejected e \<Rightarrow> (Some e, s)
              | Resolved result \<Rightarrow> record_result env result s)))"

subsection \<open>Start, pause, resume, stop\<close>

text \<open>
  What one call of \<open>startMonitoring\<close> meets: \<open>crypto.randomUUID()\<close>, \<open>Date.now()\<close>, the
  camera and microphone request, the segmentation library, the hidden canvases (each
  given by the stream its \<open>captureStream\<close> returns, \<open>None\<close> when the ref is empty), the
  screen request and the stream of the placeholder canvas used when that request
  fails, what the \<open>MediaRecorder\<close> constructor and \<open>recorder.start\<close> throw, and whether
  the screen track is a live track that does not come from a canvas.
\<close>

datatype segmentation_init =
  SegUnavailable | SegConstructorThrows | SegPlayRejects | SegStarted

record StartEnv =
  randomUUID :: string
  start_now :: int
  getUserMedia :: "stream promise"
  selfieSegmentation :: segmentation_init
  processedCanvas :: "stream option"
  getDisplayMedia :: "stream promise"
  fallbackCanvas :: stream
  compositorCanvas :: "stream option"
  new_MediaRecorder_throws :: "js_error option"
  recorder_start_throws :: "js_error option"
  screenTrack_is_capture :: bool

text \<open>The \<open>catch\<close> block of \<open>startMonitoring\<close>.\<close>

definition alert_message :: "js_error \<Rightarrow> string" where
  "alert_message err =
     (if err_name err = ''NotAllowedError''
      then ''Permission denied. Please check Camera/Microphone permissions.''
      else ''Error accessing devices: '' @
           (if err_message err \<noteq> [] then err_message err else ''Unknown error'') @ ''.'')"

definition start_catch :: "js_error \<Rightarrow> LiveMonitor \<Rightarrow> LiveMonitor" where
  "start_catch err s = emit (Alert (alert_message err)) s"

text \<open>
  Step 2, inside its own \<open>try\<close>: the refs are set before \<open>await dummyVideo.play()\<close>, the
  segmentation interval is registered after it; a failure is only logged.
\<close>

definition init_segmentation :: "StartEnv \<Rightarrow> LiveMonitor \<Rightarrow> LiveMonitor" where
  "init_segmentation env s =
     (if selfieSegmentation env \<noteq> SegUnavailable \<and> processedCanvas env \<noteq> None
      then (case selfieSegmentation env of
              SegUnavailable \<Rightarrow> s
            | SegConstructorThrows \<Rightarrow> s
            | SegPlayRejects \<Rightarrow> s\<lparr> segmentationRef := True, isSegmentationReadyRef := True \<rparr>
            | SegStarted \<Rightarrow>
                s\<lparr> segmentationRef := True, isSegmentationReadyRef := True,
                   loopsRef := loopsRef s @ [SegmentationLoop] \<rparr>)
      else s)"

text \<open>Step 3.\<close>

definition prepare_processed :: "StartEnv \<Rightarrow> LiveMonitor \<Rightarrow> LiveMonitor" where
  "prepare_processed env s =
     (case processedCanvas env of
        None \<Rightarrow> s
      | Some p \<Rightarrow> s\<lparr> processedCameraStreamRef := Some p,
                      liveStreams := insert p (liveStreams s) \<rparr>)"

text \<open>Step 4: the screen stream, or the stream of the placeholder canvas.\<close>

definition acquire_screen :: "StartEnv \<Rightarrow> LiveMonitor \<Rightarrow> LiveMonitor" where
  "acquire_screen env s =
     (let screenStream = (case getDisplayMedia env of
                            Resolved sc \<Rightarrow> sc
                          | Rejected err \<Rightarrow> fallbackCanvas env)
      in s\<lparr> screenStreamRef := Some screenStream,
            liveStreams := insert screenStream (liveStreams s) \<rparr>)"

text \<open>
  Steps 5 and 6 and the rest of the \<open>try\<close> block, from the compositor on. \<open>s0\<close> is the
  state of the render whose \<open>startMonitoring\<close> runs: the \<open>startAnalysisLoop\<close> and the
  \<open>stopMonitoring\<close> it refers to are the ones of that render. With an empty compositor
  ref, \<open>compCanvas!.captureStream\<close> throws a \<open>TypeError\<close>.
\<close>

definition start_recording :: "StartEnv \<Rightarrow> LiveMonitor \<Rightarrow> LiveMonitor \<Rightarrow> LiveMonitor" where
  "start_recording env s0 s =
     (case compositorCanvas env of
        None \<Rightarrow>
          start_catch \<lparr> err_name = ''TypeError'',
                        err_message = ''Cannot read properties of null'' \<rparr> s
      | Some recordingStream \<Rightarrow>
          (let s1 = s\<lparr> loopsRef := loopsRef s @ [CompositorLoop],
                       streamRef := Some recordingStream,
                       liveStreams := insert recordingStream (liveStreams s) \<rparr>
           in case new_MediaRecorder_throws env of
                Some err \<Rightarrow> start_catch err s1
              | None \<Rightarrow>
                  (let s2 = s1\<lparr> mediaRecorderRef :=
                                  Some \<lparr> rec_state = inactive, onstop = None,
                                         stop_queued = False \<rparr> \<rparr>
                   in case recorder_start_throws env of
                        Some err \<Rightarrow> start_catch err s2
                      | None \<Rightarrow>
                          (startAnalysisLoop (isIdle s0)
                             (s2\<lparr> mediaRecorderRef :=
                                    Some \<lparr> rec_state = recording, onstop = None,
                                           stop_queued = False \<rparr>,
                                  status := RECORDING,
                                  timerRef := True \<rparr>))
                            \<lparr> screenTrack_onended :=
                                (if screenTrack_is_capture env then Some (closure_of s0)
                                 else None) \<rparr>)))"

definition startMonitoring :: "StartEnv \<Rightarrow> LiveMonitor \<Rightarrow> LiveMonitor" where
  "startMonitoring env s =
     (let s1 = (if status s = IDLE
                then s\<lparr> chunksRef := [], activeSessionId := randomUUID env \<rparr>
                else s);
          s2 = s1\<lparr> lastActivityRef := start_now env, isIdle := False \<rparr>
      in case getUserMedia env of
           Rejected err \<Rightarrow> start_catch err s2
         | Resolved userStream \<Rightarrow>
             (let s3 = s2\<lparr> rawCameraStreamRef := Some userStream,
                           liveStreams := insert userStream (liveStreams s2),
                           isCameraEnabled := True \<rparr>
              in start_recording env s
                   (acquire_screen env (prepare_processed env (init_segmentation env s3)))))"

definition pauseMonitoring :: "int \<Rightarrow> LiveMonitor \<Rightarrow> LiveMonitor" where
  "pauseMonitoring now s =
     (let s1 = (case mediaRecorderRef s of
                  None \<Rightarrow> s
                | Some r \<Rightarrow>
                    if rec_state r = recording
                    then s\<lparr> mediaRecorderRef := Some (r\<lparr> rec_state := paused \<rparr>) \<rparr>
                    else s);
          s2 = s1\<lparr> analysisIntervalRef := None \<rparr>;
          s3 = s2\<lparr> status := PAUSED \<rparr>
      in saveSessionToStorage (activeSessionId s) now (elapsedTime s) (logs s) (chunksRef s3) s3)"

definition stream_active :: "LiveMonitor \<Rightarrow> bool" where
  "stream_active s = (case streamRef s of None \<Rightarrow> False | Some r \<Rightarrow> r \<in> liveStreams s)"

definition resumeMonitoring :: "StartEnv \<Rightarrow> LiveMonitor \<Rightarrow> LiveMonitor" where
  "resumeMonitoring env s =
     (if stream_active s
      then
        (let s1 = (case mediaRecorderRef s of
                     None \<Rightarrow> s
                   | Some r \<Rightarrow>
                       if rec_state r = paused
                       then s\<lparr> mediaRecorderRef := Some (r\<lparr> rec_state := recording \<rparr>) \<rparr>
                       else s);
             s2 = s1\<lparr> lastActivityRef := start_now env, isIdle := False \<rparr>
         in (startAnalysisLoop (isIdle s) s2)\<lparr> status := RECORDING \<rparr>)
      else startMonitoring env s)"

definition toggleCamera :: "LiveMonitor \<Rightarrow> LiveMonitor" where
  "toggleCamera s = s\<lparr> isCameraEnabled := \<not> isCameraEnabled s \<rparr>"

definition stopLoops :: "LiveMonitor \<Rightarrow> LiveMonitor" where
  "stopLoops s = s\<lparr> loopsRef := [], isSegmentationReadyRef := False, segmentationRef := False \<rparr>"

text \<open>
  The cleanup of the mount effect, run when the component unmounts (logout). Its
  \<open>saveSessionToStorage\<close> is the one of the first render, which writes the logs under
  the id of that render; \<open>now\<close> is \<open>Date.now()\<close>. The two intervals are cleared and
  the drawing loops stopped; the streams and the recorder are left as they are.
\<close>

definition unmount :: "int \<Rightarrow> LiveMonitor \<Rightarrow> LiveMonitor" where
  "unmount now s =
     (let s1 = (if status s \<noteq> IDLE
                then saveSessionToStorage (firstRenderSessionId s) now (elapsedTime s) (logs s)
                       (chunksRef s) s
                else s)
      in stopLoops (s1\<lparr> timerRef := False, analysisIntervalRef := None \<rparr>))"

definition stop_streams :: "LiveMonitor \<Rightarrow> LiveMonitor" where
  "stop_streams s =
     s\<lparr> liveStreams := liveStreams s -
           (set_option (streamRef s) \<union> set_option (screenStreamRef s) \<union>
            set_option (rawCameraStreamRef s) \<union> set_option (processedCameraStreamRef s)) \<rparr>"

text \<open>The \<open>else\<close> branch of \<open>stopMonitoring\<close>: "Fallback if recorder was not active".\<close>

definition stop_fallback :: "LiveMonitor \<Rightarrow> LiveMonitor" where
  "stop_fallback s =
     emit RemoveSessionMeta
       (s\<lparr> elapsedTime := 0, logs := [], currentAnalysis := JsNull, chunksRef := [],
           sw_session_meta := None \<rparr>)"

text \<open>
  \<open>stopMonitoring\<close>, as the function object created in a render with the values \<open>c\<close>.
  With a recorder that is not inactive it installs the \<open>onstop\<close> handler and calls
  \<open>stop()\<close>: the recorder becomes inactive at once and queues its last two events.
\<close>

definition stopMonitoringWith :: "StopClosure \<Rightarrow> LiveMonitor \<Rightarrow> LiveMonitor" where
  "stopMonitoringWith c s =
     (let s1 = stopLoops (stop_streams s);
          s2 = s1\<lparr> timerRef := False, analysisIntervalRef := None \<rparr>;
          s3 = (case mediaRecorderRef s2 of
                  None \<Rightarrow> stop_fallback s2
                | Some r \<Rightarrow>
                    if rec_state r \<noteq> inactive
                    then s2\<lparr> mediaRecorderRef :=
                              Some (r\<lparr> onstop := Some c, rec_state := inactive,
                                      stop_queued := True \<rparr>) \<rparr>
                    else stop_fallback s2)
      in s3\<lparr> status := IDLE, isCameraEnabled := True, isIdle := False \<rparr>)"

text \<open>The End button calls the \<open>stopMonitoring\<close> of the current render.\<close>

definition stopMonitoring :: "LiveMonitor \<Rightarrow> LiveMonitor" where
  "stopMonitoring s = stopMonitoringWith (closure_of s) s"

text \<open>
  The \<open>onstop\<close> handler with the values \<open>c\<close>; \<open>db\<close> decides how the awaited
  \<open>saveVideoToDB\<close> settles. When it rejects, the handler ends at that \<open>await\<close>.
\<close>

definition onstop_handler ::
  "StopClosure \<Rightarrow> SessionLog idb_env \<Rightarrow> LiveMonitor \<Rightarrow> LiveMonitor" where
  "onstop_handler c db s =
     (let finalChunks = chunksRef s;
          videoBlobUrl = (if length finalChunks > 0 then Some (new_Blob finalChunks) else None);
          s1 = (if length finalChunks > 0
                then emit (SaveVideoToDB (closure_sessionId c) (new_Blob finalChunks)) s
                else s);
          saved = (if length finalChunks > 0
                   then saveVideoToDB db (closure_sessionId c) (new_Blob finalChunks)
                   else Resolved ())
      in case saved of
           Rejected e \<Rightarrow> s1
         | Resolved u \<Rightarrow>
             (let s2 = emit ClearRecoveryChunks s1;
                  s3 = emit RemoveSessionMeta (s2\<lparr> sw_session_meta := None \<rparr>);
                  s4 = emit (SessionComplete (closure_sessionId c) (closure_elapsedTime c)
                               (closure_logs c) videoBlobUrl) s3;
                  s5 = (if length (closure_logs c) > 0
                        then emit (SaveLogsToDB (closure_sessionId c) (closure_logs c)) s4
                        else s4)
              in s5\<lparr> elapsedTime := 0, logs := [], currentAnalysis := JsNull, chunksRef := [] \<rparr>))"

text \<open>
  The task queued by \<open>recorder.stop()\<close>: a last \<open>dataavailable\<close> event with the data the
  encoder still held, then the \<open>stop\<close> event.
\<close>

definition recorder_stop_task ::
  "blob \<Rightarrow> SessionLog idb_env \<Rightarrow> LiveMonitor \<Rightarrow> LiveMonitor" where
  "recorder_stop_task lastData db s =
     (case mediaRecorderRef s of
        None \<Rightarrow> s
      | Some r \<Rightarrow>
          if stop_queued r
          then (let s1 = ondataavailable lastData
                           (s\<lparr> mediaRecorderRef := Some (r\<lparr> stop_queued := False \<rparr>) \<rparr>)
                in case onstop r of
                     None \<Rightarrow> s1
                   | Some c \<Rightarrow> onstop_handler c db s1)
          else s)"

subsection \<open>Events\<close>

text \<open>
  Everything that can happen to the mounted component. A button acts only while it is
  rendered (Start in \<open>IDLE\<close>; Pause in \<open>RECORDING\<close>; Resume in the other states; End and
  the camera toggle outside \<open>IDLE\<close>; the recovery buttons while the modal is shown), an
  interval callback only while its interval is registered, a recorder event only in the
  recorder state that produces it, the \<open>ended\<close> event of the screen track only while
  that track has not been stopped. After the handler, the render runs the effect that
  restarts the sampling loop.

  The click on a button reaches the button's handler first and the \<open>click\<close> listener
  of \<open>window\<close> after it: the first argument of a button event is the time that this
  listener reads. \<open>handleResumeSession\<close> sets \<open>lastActivityRef\<close> itself after its
  \<open>await\<close>, that is after the listener.

  A handler runs as one step: what else could happen between two \<open>await\<close>s of an
  asynchronous handler is not followed. The recorder followed is the one in
  \<open>mediaRecorderRef\<close>: the stop task of a recorder that a new start has replaced is
  not followed either.
\<close>

datatype event =
    Start int StartEnv
  | Pause int int
  | Resume int StartEnv
  | End int
  | ToggleCamera int
  | Activity int
  | TimerTick
  | IdlePoll int int int
  | AnalysisTick SampleEnv
  | Checkpoint int
  | DataAvailable blob
  | RecorderStopped blob "SessionLog idb_env"
  | ScreenShareEnded
  | ResumeSession int int "blob list promise"
  | DiscardSession int
  | Reload string int

definition recorder_is :: "RecordingState \<Rightarrow> LiveMonitor \<Rightarrow> bool" where
  "recorder_is st s = (case mediaRecorderRef s of None \<Rightarrow> False | Some r \<Rightarrow> rec_state r = st)"

fun handle :: "event \<Rightarrow> LiveMonitor \<Rightarrow> LiveMonitor" where
  "handle (Start t env) s =
     (if status s = IDLE then handleActivity t (startMonitoring env s) else s)"
| "handle (Pause t now) s =
     (if status s = RECORDING then handleActivity t (pauseMonitoring now s) else s)"
| "handle (Resume t env) s =
     (if status s \<noteq> IDLE \<and> status s \<noteq> RECORDING
      then handleActivity t (resumeMonitoring env s) else s)"
| "handle (End t) s = (if status s \<noteq> IDLE then handleActivity t (stopMonitoring s) else s)"
| "handle (ToggleCamera t) s =
     (if status s \<noteq> IDLE then handleActivity t (toggleCamera s) else s)"
| "handle (Activity now) s = handleActivity now s"
| "handle TimerTick s = (if timerRef s then timer_tick s else s)"
| "handle (IdlePoll now id_now ts_now) s = checkIdle now id_now ts_now s"
| "handle (AnalysisTick env) s =
     (if analysisIntervalRef s \<noteq> None then snd (analysis_tick env s) else s)"
| "handle (Checkpoint now) s = checkpoint now s"
| "handle (DataAvailable d) s = (if recorder_is recording s then ondataavailable d s else s)"
| "handle (RecorderStopped d db) s = recorder_stop_task d db s"
| "handle ScreenShareEnded s =
     (case screenTrack_onended s of
        None \<Rightarrow> s
      | Some c \<Rightarrow>
          if (case screenStreamRef s of None \<Rightarrow> False | Some sc \<Rightarrow> sc \<in> liveStreams s)
          then stopMonitoringWith c (s\<lparr> screenTrack_onended := None \<rparr>)
          else s)"
| "handle (ResumeSession t now loaded) s =
     (if showRecovery s then handleResumeSession now loaded (handleActivity t s) else s)"
| "handle (DiscardSession t) s =
     (if showRecovery s then handleActivity t (handleDiscardSession s) else s)"
| "handle (Reload uuid now) s = reload uuid now s"

definition step :: "LiveMonitor \<Rightarrow> event \<Rightarrow> LiveMonitor" where
  "step s ev = analysis_effect s (handle ev s)"

definition run :: "LiveMonitor \<Rightarrow> event list \<Rightarrow> LiveMonitor" where
  "run s evs = foldl step s evs"

text \<open>
  \<open>step\<close> is an event of a component whose next render completes. Outside \<open>IDLE\<close>
  the analysis card is rendered from \<open>currentAnalysis\<close> when that is truthy, with
  \<open>currentAnalysis.riskLevel.toUpperCase()\<close>: the render throws when the value has no
  \<open>riskLevel\<close>.
\<close>

definition render_throws :: "LiveMonitor \<Rightarrow> bool" where
  "render_throws s =
     (status s \<noteq> IDLE \<and>
      (case currentAnalysis s of
         JsNull \<Rightarrow> False
       | JsObject r \<Rightarrow> riskLevel r = None
       | JsOther truthy \<Rightarrow> truthy))"

text \<open>
  The life of the component on one page. A logout unmounts it (\<open>Unmount\<close>, with the
  time its cleanup reads), a login mounts a new instance (\<open>Mount\<close>, with the user, the
  new id and the time). Once unmounted, its buttons, listeners and intervals are gone;
  the recorder and the screen track that it left running still deliver their events to
  the handlers it installed, and a reload loads the page anew. What such a handler
  writes into the state of the unmounted instance is read by nothing any more: only
  what it does to the refs and to the world counts.

  An error thrown by a render is caught by nothing: the state updates that led to the
  render are dropped, no effect of that render runs, and the whole tree is unmounted.
  \<open>Failing s s'\<close> is the component between the failed render and that unmount: \<open>s\<close> is
  the state of the last render that completed, which \<open>stateRef\<close> still mirrors, \<open>s'\<close>
  has the refs and the world as the handler left them.
\<close>

datatype page = Mounted LiveMonitor | Failing LiveMonitor LiveMonitor | Unmounted LiveMonitor

datatype page_event = Component event | Unmount int | Mount string string int

fun outlives_component :: "event \<Rightarrow> bool" where
  "outlives_component (DataAvailable d) = True"
| "outlives_component (RecorderStopped d db) = True"
| "outlives_component ScreenShareEnded = True"
| "outlives_component ev = False"

fun is_Reload :: "event \<Rightarrow> bool" where
  "is_Reload (Reload uuid now) = True"
| "is_Reload ev = False"

fun page_step :: "page \<Rightarrow> page_event \<Rightarrow> page" where
  "page_step (Mounted s) (Component ev) =
     (if render_throws (handle ev s) then Failing s (handle ev s) else Mounted (step s ev))"
| "page_step (Mounted s) (Unmount now) = Unmounted (unmount now s)"
| "page_step (Mounted s) (Mount user uuid now) = Mounted s"
| "page_step (Failing s s') (Unmount now) =
     Unmounted (unmount now (s'\<lparr> status := status s, elapsedTime := elapsedTime s,
                                 logs := logs s \<rparr>))"
| "page_step (Failing s s') (Component ev) =
     (if is_Reload ev then Mounted (step s' ev) else Failing s s')"
| "page_step (Failing s s') (Mount user uuid now) = Failing s s'"
| "page_step (Unmounted s) (Component ev) =
     (if is_Reload ev then Mounted (step s ev)
      else if outlives_component ev then Unmounted (handle ev s)
      else Unmounted s)"
| "page_step (Unmounted s) (Unmount now) = Unmounted s"
| "page_step (Unmounted s) (Mount user uuid now) = Mounted (mount user uuid now s)"

definition page_run :: "page \<Rightarrow> page_event list \<Rightarrow> page" where
  "page_run p evs = foldl page_step p evs"

fun component :: "page \<Rightarrow> LiveMonitor" where
  "component (Mounted s) = s"
| "component (Failing s s') = s'"
| "component (Unmounted s) = s"

text \<open>The calls of \<open>onSessionComplete\<close> made so far.\<close>

fun is_SessionComplete :: "effect \<Rightarrow> bool" where
  "is_SessionComplete (SessionComplete i d ls v) = True"
| "is_SessionComplete e = False"

definition completions :: "LiveMonitor \<Rightarrow> effect list" where
  "completions s = filter is_SessionComplete (effects s)"

section \<open>Concrete inputs and runs\<close>

text \<open>A session of 20 seconds with two camera-on logs, for evaluating the overview.\<close>

definition demo_log :: "int \<Rightarrow> string \<Rightarrow> SessionLog" where
  "demo_log t cat =
     \<lparr> log_id = t, resourceId = Some ''employee1'', timestamp = t, log_type = activity,
       category = Some cat, isCameraOn = True, message = Some ''demo'', confidence = Some ''low'',
       thumbnail = None \<rparr>"

definition demo_session :: RecordedSession where
  "demo_session =
     \<lparr> rs_id = ''session-1'', rs_resourceId = ''employee1'', startTime = 0, duration = 20,
       rs_status = secure, fileSize = ''1 MB'', expiryTime = 259200000,
       rs_logs = [demo_log 15000 ''Idle'', demo_log 0 ''Coding''], videoUrl = None \<rparr>"

text \<open>A stored session whose duration is negative, with one camera-on log.\<close>

definition negative_session :: RecordedSession where
  "negative_session =
     demo_session\<lparr> rs_id := ''session-2'', duration := - 5,
                    rs_logs := [demo_log 0 ''Coding''] \<rparr>"

text \<open>
  Concrete collaborators for evaluating the model: a classifier without an API key, a
  sampling run with everything mounted and no audio, a start in which every step
  succeeds, one in which the \<open>MediaRecorder\<close> constructor throws, and a store that
  accepts every write.
\<close>

definition classifier_no_key :: classify_env where
  "classifier_no_key =
     \<lparr> API_KEY = None,
       generateContent = (\<lambda>parts. Resolved None),
       JSON_parse = (\<lambda>t. Inl \<lparr> err_name = ''SyntaxError'', err_message = ''Unexpected token'' \<rparr>) \<rparr>"

definition sample_no_key :: "int \<Rightarrow> SampleEnv" where
  "sample_no_key t =
     \<lparr> refs_mounted = True, context_2d = True,
       thumbnailBase64 = ''data:image/jpeg;base64,AA'', imageBase64 = ''AA'',
       audio_snapshot = None,
       blobToBase64 = Resolved ''AA'',
       classifier = classifier_no_key,
       sample_id_now = t, sample_ts_now = t \<rparr>"









text \<open>A classifier whose remote call answers with the text \<open>{}\<close>, an empty object.\<close>

definition classifier_empty_object :: classify_env where
  "classifier_empty_object =
     \<lparr> API_KEY = Some ''key'',
       generateContent = (\<lambda>parts. Resolved (Some ''{}'')),
       JSON_parse = (\<lambda>t. if t = ''{}''
                          then Inr (JsObject \<lparr> summary = None, category_of = None,
                                               riskLevel = None \<rparr>)
                          else Inl \<lparr> err_name = ''SyntaxError'',
                                     err_message = ''Unexpected token'' \<rparr>) \<rparr>"

definition sample_empty_object :: "int \<Rightarrow> SampleEnv" where
  "sample_empty_object t = (sample_no_key t)\<lparr> classifier := classifier_empty_object \<rparr>"

definition start_ok :: "string \<Rightarrow> int \<Rightarrow> StartEnv" where
  "start_ok uuid now =
     \<lparr> randomUUID = uuid, start_now = now,
       getUserMedia = Resolved 1,
       selfieSegmentation = SegStarted,
       processedCanvas = Some 2,
       getDisplayMedia = Resolved 3,
       fallbackCanvas = 4,
       compositorCanvas = Some 5,
       new_MediaRecorder_throws = None,
       recorder_start_throws = None,
       screenTrack_is_capture = True \<rparr>"

definition start_recorder_unsupported :: "string \<Rightarrow> int \<Rightarrow> StartEnv" where
  "start_recorder_unsupported uuid now =
     (start_ok uuid now)
       \<lparr> new_MediaRecorder_throws :=
           Some \<lparr> err_name = ''NotSupportedError'',
                  err_message = ''mimeType is not supported'' \<rparr> \<rparr>"

definition store_ok :: "SessionLog idb_env" where
  "store_ok =
     \<lparr> open_request = OpenSuccess \<lparr> store_chunks = None, store_logs = Map.empty,
                                   store_videos = Map.empty \<rparr>,
       transaction_throws = None, request_error = None \<rparr>"

definition mounted :: LiveMonitor where
  "mounted = initial_monitor ''employee1'' ''id-at-mount'' 0"

text \<open>The component after mount and a successful start at time 10.\<close>

definition recording_state :: LiveMonitor where
  "recording_state = step mounted (Start 10 (start_ok ''id-at-start'' 10))"

subsection \<open>Notions used in the statements\<close>

text \<open>The test of \<open>stopMonitoring\<close>: there is a recorder and it is not inactive.\<close>

definition recorder_active :: "LiveMonitor \<Rightarrow> bool" where
  "recorder_active s =
     (case mediaRecorderRef s of None \<Rightarrow> False | Some r \<Rightarrow> rec_state r \<noteq> inactive)"

text \<open>
  A call of \<open>startMonitoring\<close> runs its \<open>try\<close> block to the end: the camera request
  resolves, the compositor canvas is there, and neither the \<open>MediaRecorder\<close> constructor
  nor \<open>recorder.start\<close> throws (a failure of the segmentation is caught on its own and
  a refused screen request is replaced by the placeholder canvas).
\<close>

definition start_succeeds :: "StartEnv \<Rightarrow> bool" where
  "start_succeeds env =
     ((case getUserMedia env of Resolved u \<Rightarrow> True | Rejected e \<Rightarrow> False) \<and>
      compositorCanvas env \<noteq> None \<and> new_MediaRecorder_throws env = None \<and>
      recorder_start_throws env = None)"

text \<open>
  The events that take the 1-second ticker away: the two that call \<open>stopMonitoring\<close>
  (the End button and the end of the screen share) and a reload, with which the page
  and its intervals go.
\<close>

fun ends_ticker :: "event \<Rightarrow> bool" where
  "ends_ticker (End t) = True"
| "ends_ticker ScreenShareEnded = True"
| "ends_ticker (Reload uuid now) = True"
| "ends_ticker ev = False"

text \<open>
  The events that belong to the course of one session on one page: pause and resume,
  the camera toggle, user activity, the periodic callbacks and the recorder's data.
  Start, End, the recorder's stop, the end of the screen share, the recovery buttons and
  a reload begin or end a session.
\<close>

fun within_session :: "event \<Rightarrow> bool" where
  "within_session (Pause t now) = True"
| "within_session (Resume t env) = True"
| "within_session (ToggleCamera t) = True"
| "within_session (Activity now) = True"
| "within_session TimerTick = True"
| "within_session (IdlePoll now id_now ts_now) = True"
| "within_session (AnalysisTick env) = True"
| "within_session (Checkpoint now) = True"
| "within_session (DataAvailable d) = True"
| "within_session ev = False"

text \<open>The reading of \<open>Date.now()\<close> that an event would put into the \<open>timestamp\<close> of a log.\<close>

fun event_timestamp :: "event \<Rightarrow> int option" where
  "event_timestamp (IdlePoll now id_now ts_now) = Some ts_now"
| "event_timestamp (AnalysisTick env) = Some (sample_ts_now env)"
| "event_timestamp ev = None"

text \<open>The session id under which an effect writes logs to the store, if it does.\<close>

fun log_save_id :: "effect \<Rightarrow> string option" where
  "log_save_id (SaveLogsToDB i ls) = Some i"
| "log_save_id e = None"

text \<open>The video payloads handed to the store.\<close>

fun video_of :: "effect \<Rightarrow> (string \<times> blob) option" where
  "video_of (SaveVideoToDB i b) = Some (i, b)"
| "video_of e = None"

definition video_saves :: "effect list \<Rightarrow> (string \<times> blob) list" where
  "video_saves effs = List.map_filter video_of effs"

text \<open>
  Concrete runs. \<open>sampled\<close>: one sampling run at 15 s with the failing classifier;
  \<open>paused_state\<close>: Pause at 20 s; \<open>recovered\<close>: the page is reloaded at 30 s and the
  session is resumed from the recovery modal; \<open>resumed\<close>: Resume is pressed, which
  starts the capture again.
\<close>

definition sample_log :: SessionLog where
  "sample_log =
     \<lparr> log_id = 15000, resourceId = Some ''employee1'', timestamp = 15000,
       log_type = activity, category = Some ''Work'', isCameraOn = True,
       message = Some ''AI analysis temporarily unavailable.'', confidence = Some ''low'',
       thumbnail = Some ''data:image/jpeg;base64,AA'' \<rparr>"

definition sampled :: LiveMonitor where
  "sampled = step recording_state (AnalysisTick (sample_no_key 15000))"

definition paused_state :: LiveMonitor where
  "paused_state = step sampled (Pause 20000 20000)"

definition recovered :: LiveMonitor where
  "recovered =
     run paused_state [Reload ''id-after-reload'' 30000, ResumeSession 31000 31000 (Resolved [])]"

definition resumed :: LiveMonitor where
  "resumed = step recovered (Resume 32000 (start_ok ''id-not-used'' 32000))"

definition sampled_twice :: LiveMonitor where
  "sampled_twice =
     run recording_state [AnalysisTick (sample_no_key 15000), AnalysisTick (sample_no_key 30000)]"

definition paused_ticking :: LiveMonitor where
  "paused_ticking = run (step recording_state (Pause 20000 20000)) [TimerTick, TimerTick]"

definition sample_meta :: RecoveryMeta where
  "sample_meta = \<lparr> meta_elapsedTime = 0, meta_logs = [stripThumbnail sample_log],
                   meta_timestamp = 20000, wasRecording = True \<rparr>"

text \<open>
  \<open>s'\<close> has done to the world what \<open>s\<close> had done and then only things that belong to
  the running session: no call of \<open>onSessionComplete\<close>, and logs written to the store
  under the session id of \<open>s\<close> only.
\<close>

definition session_effect :: "string \<Rightarrow> effect \<Rightarrow> bool" where
  "session_effect i e =
     (\<not> is_SessionComplete e \<and> (case log_save_id e of None \<Rightarrow> True | Some j \<Rightarrow> j = i))"

definition adds_session_effects :: "LiveMonitor \<Rightarrow> LiveMonitor \<Rightarrow> bool" where
  "adds_session_effects s s' =
     (take (length (effects s)) (effects s') = effects s \<and>
      list_all (session_effect (activeSessionId s)) (drop (length (effects s)) (effects s')))"

text \<open>
  The chunk buffer as the \<open>onstop\<close> handler finds it when the recorder delivers \<open>d\<close> as
  its last data, the video made of it, and whether the awaited save of that video
  resolves (so that the handler runs to its end).
\<close>

definition final_chunks :: "LiveMonitor \<Rightarrow> blob \<Rightarrow> blob list" where
  "final_chunks s d = chunksRef (ondataavailable d s)"

definition final_video :: "LiveMonitor \<Rightarrow> blob \<Rightarrow> blob option" where
  "final_video s d =
     (if length (final_chunks s d) > 0 then Some (new_Blob (final_chunks s d)) else None)"

definition video_save_resolves :: "SessionLog idb_env \<Rightarrow> LiveMonitor \<Rightarrow> blob \<Rightarrow> bool" where
  "video_save_resolves db s d =
     (if length (final_chunks s d) > 0
      then saveVideoToDB db (activeSessionId s) (new_Blob (final_chunks s d)) = Resolved ()
      else True)"

definition stop_pending :: "LiveMonitor \<Rightarrow> bool" where
  "stop_pending s = (case mediaRecorderRef s of None \<Rightarrow> False | Some r \<Rightarrow> stop_queued r)"

text \<open>
  The state reached by a click on Pause (the listener reads \<open>tc\<close>, the handler \<open>now\<close>)
  followed by \<open>n\<close> ticks of the 1-second timer.
\<close>

definition paused_for :: "nat \<Rightarrow> int \<Rightarrow> int \<Rightarrow> LiveMonitor \<Rightarrow> LiveMonitor" where
  "paused_for n tc now s = run (step s (Pause tc now)) (replicate n TimerTick)"

text \<open>The recording state after the recorder delivered a first chunk.\<close>

definition recorded_chunk :: LiveMonitor where
  "recorded_chunk = step recording_state (DataAvailable [1, 2])"

definition sample_log_2 :: SessionLog where
  "sample_log_2 = sample_log\<lparr> log_id := 30000, timestamp := 30000 \<rparr>"

section \<open>Properties of the durable store\<close>

lemma reads_open_failure:
  "open_request env = OpenError e \<Longrightarrow>
     getVideoFromDB env sid = Resolved None \<and>
     getLogsFromDB env sid = Resolved [] \<and>
     loadRecoveryChunks env = Resolved []"
  by (simp add: getVideoFromDB_def getLogsFromDB_def loadRecoveryChunks_def
      async_try_await_return_def initDB_def new_Promise_def)

lemma reads_request_error:
  "open_request env = OpenSuccess db \<Longrightarrow> transaction_throws env = None \<Longrightarrow>
   request_error env = Some e \<Longrightarrow>
     getVideoFromDB env sid = Rejected e \<and>
     getLogsFromDB env sid = Rejected e \<and>
     loadRecoveryChunks env = Rejected e"
  by (simp add: getVideoFromDB_def getLogsFromDB_def loadRecoveryChunks_def
      async_try_await_return_def initDB_def read_request_def new_Promise_def)

text \<open>
  C9. Claimed: every read of the durable store resolves to \<open>undefined\<close> or to the empty
  list when the underlying storage operation fails, open failure and request error
  alike. The code at a request error: the database opens, the \<open>get\<close> request fires
  \<open>onerror\<close>, and each of the three reads rejects with the request's error, because the
  promise that carries the request is returned from inside \<open>try\<close> without \<open>await\<close>.
  (The open failure alone is caught: there the three reads do resolve to
  \<open>undefined\<close>, \<open>[]\<close> and \<open>[]\<close>.)
\<close>

theorem C9_reads_reject_on_request_error:
  "getVideoFromDB env_request_fails ''s1'' = Rejected read_failure \<and>
   getLogsFromDB env_request_fails ''s1'' = Rejected read_failure \<and>
   loadRecoveryChunks env_request_fails = Rejected read_failure \<and>
   getVideoFromDB env_open_fails ''s1'' = Resolved None \<and>
   getLogsFromDB env_open_fails ''s1'' = Resolved [] \<and>
   loadRecoveryChunks env_open_fails = Resolved []"
  by (simp add: getVideoFromDB_def getLogsFromDB_def loadRecoveryChunks_def
      async_try_await_return_def initDB_def read_request_def new_Promise_def
      env_request_fails_def env_open_fails_def)

section \<open>Properties of the analytics overview\<close>

lemma overview_log_total [simp]:
  "totalDurationSeconds (overview_log acc l) = totalDurationSeconds acc"
  by (simp add: overview_log_def Let_def)

lemma overview_log_camera_nonneg:
  "0 \<le> cameraOnSeconds acc \<Longrightarrow> 0 \<le> cameraOnSeconds (overview_log acc l)"
  by (simp add: overview_log_def Let_def)

lemma foldl_overview_log_total [simp]:
  "totalDurationSeconds (foldl overview_log acc ls) = totalDurationSeconds acc"
  by (induction ls arbitrary: acc) simp_all

lemma foldl_overview_log_camera_nonneg:
  "0 \<le> cameraOnSeconds acc \<Longrightarrow> 0 \<le> cameraOnSeconds (foldl overview_log acc ls)"
  by (induction ls arbitrary: acc) (simp_all add: overview_log_camera_nonneg)

lemma overview_session_total:
  "totalDurationSeconds (overview_session acc s) = totalDurationSeconds acc + duration s"
  by (simp add: overview_session_def)

lemma overview_session_camera_nonneg:
  "0 \<le> cameraOnSeconds acc \<Longrightarrow> 0 \<le> cameraOnSeconds (overview_session acc s)"
  by (simp add: overview_session_def foldl_overview_log_camera_nonneg)

lemma foldl_overview_session_total:
  "totalDurationSeconds (foldl overview_session acc ss) =
     totalDurationSeconds acc + sum_list (map duration ss)"
  by (induction ss arbitrary: acc) (simp_all add: overview_session_total)

lemma foldl_overview_session_camera_nonneg:
  "0 \<le> cameraOnSeconds acc \<Longrightarrow> 0 \<le> cameraOnSeconds (foldl overview_session acc ss)"
  by (induction ss arbitrary: acc) (simp_all add: overview_session_camera_nonneg)

lemma sum_list_duration_nonneg:
  "\<forall>s \<in> set ss. 0 \<le> duration s \<Longrightarrow> 0 \<le> sum_list (map duration ss)"
  by (induction ss) simp_all

lemma totalDuration_is_sum:
  "totalDuration (analyticsOverview ss) = sum_list (map duration ss)"
  by (simp add: analyticsOverview_def Let_def foldl_overview_session_total initial_acc_def)

text \<open>
  C10 as claimed fails. The overview sums the durations of the sessions it is given
  (they are read back from \<open>localStorage\<close>) without a check: with a session of duration
  \<open>-5\<close> that has one camera-on log, the total is \<open>-5\<close> and the clamp makes the camera
  time \<open>-5\<close> as well.
\<close>

theorem C10_claim_counterexample:
  "duration negative_session = - 5 \<and>
   totalDuration (analyticsOverview (filteredSessionsForAnalytics [negative_session] ''all''))
     = - 5 \<and>
   cameraDuration (analyticsOverview (filteredSessionsForAnalytics [negative_session] ''all''))
     = - 5 \<and>
   cameraDuration (analyticsOverview (filteredSessionsForAnalytics [negative_session] ''all''))
     < 0"
  by (simp add: negative_session_def demo_session_def demo_log_def analyticsOverview_def
      filteredSessionsForAnalytics_def overview_session_def overview_log_def
      initial_acc_def Let_def)

text \<open>
  C10 (as amended). For every list of sessions and every user filter, the overview's
  camera time is at most the total duration (the clamp \<open>Math.min\<close>). It is not negative
  exactly when the total duration is not negative, so whenever no session of the list
  has a negative duration.
\<close>

theorem C10_camera_duration_clamped:
  "cameraDuration (analyticsOverview (filteredSessionsForAnalytics sessions user))
     \<le> totalDuration (analyticsOverview (filteredSessionsForAnalytics sessions user)) \<and>
   (0 \<le> cameraDuration (analyticsOverview (filteredSessionsForAnalytics sessions user)) \<longleftrightarrow>
    0 \<le> totalDuration (analyticsOverview (filteredSessionsForAnalytics sessions user))) \<and>
   ((\<forall>s \<in> set sessions. 0 \<le> duration s) \<longrightarrow>
      0 \<le> cameraDuration (analyticsOverview (filteredSessionsForAnalytics sessions user)))"
proof -
  let ?fs = "filteredSessionsForAnalytics sessions user"
  let ?acc = "foldl overview_session initial_acc ?fs"
  have upper: "cameraDuration (analyticsOverview ?fs) \<le> totalDuration (analyticsOverview ?fs)"
    by (simp add: analyticsOverview_def Let_def)
  have cam: "0 \<le> cameraOnSeconds ?acc"
    by (rule foldl_overview_session_camera_nonneg) (simp add: initial_acc_def)
  have lower: "0 \<le> cameraDuration (analyticsOverview ?fs)"
    if nonneg: "\<forall>s \<in> set sessions. 0 \<le> duration s"
  proof -
    from nonneg have "\<forall>s \<in> set ?fs. 0 \<le> duration s"
      by (simp add: filteredSessionsForAnalytics_def)
    then have "0 \<le> sum_list (map duration ?fs)"
      by (rule sum_list_duration_nonneg)
    then have "0 \<le> totalDurationSeconds ?acc"
      by (simp add: foldl_overview_session_total initial_acc_def)
    with cam show ?thesis
      by (simp add: analyticsOverview_def Let_def)
  qed
  have exact: "0 \<le> cameraDuration (analyticsOverview ?fs) \<longleftrightarrow>
      0 \<le> totalDuration (analyticsOverview ?fs)"
    using cam by (auto simp: analyticsOverview_def Let_def)
  from upper exact lower show ?thesis by blast
qed

theorem C10_camera_duration_clamped_witness:
  "0 \<le> duration demo_session \<and>
   cameraDuration (analyticsOverview (filteredSessionsForAnalytics [demo_session] ''all'')) = 20 \<and>
   totalDuration (analyticsOverview (filteredSessionsForAnalytics [demo_session] ''all'')) = 20 \<and>
   0 \<le> cameraDuration (analyticsOverview (filteredSessionsForAnalytics [demo_session] ''all''))"
  using C10_camera_duration_clamped [of "[demo_session]" "''all''"]
  by (simp add: demo_session_def demo_log_def analyticsOverview_def
      filteredSessionsForAnalytics_def overview_session_def overview_log_def
      initial_acc_def Let_def)

section \<open>Evaluation of the concrete states\<close>

lemma recording_state_eq:
  "recording_state =
     mounted\<lparr> status := RECORDING, isCameraEnabled := True, isIdle := False,
              activeSessionId := ''id-at-start'', lastActivityRef := 10, timerRef := True,
              analysisIntervalRef := Some 15000,
              loopsRef := [SegmentationLoop, CompositorLoop],
              segmentationRef := True, isSegmentationReadyRef := True, chunksRef := [],
              mediaRecorderRef := Some \<lparr> rec_state = recording, onstop = None,
                                          stop_queued = False \<rparr>,
              streamRef := Some 5, screenStreamRef := Some 3, rawCameraStreamRef := Some 1,
              processedCameraStreamRef := Some 2,
              screenTrack_onended := Some \<lparr> closure_sessionId = ''id-at-mount'',
                                             closure_elapsedTime = 0, closure_logs = [] \<rparr>,
              liveStreams := {5, 3, 2, 1} \<rparr>"
  by (simp add: recording_state_def step_def startMonitoring_def start_recording_def
      acquire_screen_def prepare_processed_def init_segmentation_def start_ok_def
      startAnalysisLoop_def frequency_def closure_of_def analysis_effect_def handleActivity_def
      mounted_def initial_monitor_def Let_def)

lemma recording_state_status: "status recording_state = RECORDING"
  by (simp add: recording_state_eq)

lemma recording_state_lastActivity: "lastActivityRef recording_state = 10"
  by (simp add: recording_state_eq)

lemma recording_state_isIdle: "isIdle recording_state = False"
  by (simp add: recording_state_eq)

section \<open>Properties of the classification call and of the sampler\<close>

lemma analyzeSessionContext_resolves:
  "\<exists>r. analyzeSessionContext env img a = Resolved r"
  by (simp add: analyzeSessionContext_def split: sum.split)




lemma record_result_null:
  "record_result env JsNull s =
     (Some \<lparr> err_name = ''TypeError'', err_message = ''Cannot read properties of null'' \<rparr>,
      s\<lparr> currentAnalysis := JsNull \<rparr>)"
  by (simp add: record_result_def read_property_def)

lemma record_result_object:
  "record_result env (JsObject ob) s =
     (None, add_log (analysis_log s env (category_of ob) (summary ob) (riskLevel ob))
              (s\<lparr> currentAnalysis := JsObject ob \<rparr>))"
  by (simp add: record_result_def read_property_def)

lemma record_result_other:
  "record_result env (JsOther b) s =
     (None, add_log (analysis_log s env None None None) (s\<lparr> currentAnalysis := JsOther b \<rparr>))"
  by (simp add: record_result_def read_property_def)

lemma analysis_tick_classified:
  assumes "refs_mounted senv" "context_2d senv" "sample_audio senv s = Inr a"
    and "analyzeSessionContext (classifier senv) (imageBase64 senv) a = Resolved r"
  shows "analysis_tick senv s = record_result senv r s"
  using assms by (simp add: analysis_tick_def)




section \<open>Properties of the live monitor\<close>

subsection \<open>The idle detector\<close>

lemma checkIdle_no_edge:
  "isIdle s = (now - lastActivityRef s > IDLE_THRESHOLD) \<Longrightarrow> checkIdle now i t s = s"
  by (simp add: checkIdle_def Let_def)

lemma analysis_effect_same [simp]: "analysis_effect s s = s"
  by (simp add: analysis_effect_def handleActivity_def)

lemma checkIdle_edge:
  "status s = RECORDING \<Longrightarrow> isIdle s \<noteq> (now - lastActivityRef s > IDLE_THRESHOLD) \<Longrightarrow>
   checkIdle now i t s =
     (add_log (idle_log s (now - lastActivityRef s > IDLE_THRESHOLD) i t) s)
       \<lparr> isIdle := (now - lastActivityRef s > IDLE_THRESHOLD) \<rparr>"
  by (simp add: checkIdle_def Let_def)

text \<open>
  C7. The idle check runs every 5 seconds against a threshold of 5 minutes. While
  recording, a poll that finds the idle flag different from the stored one puts exactly
  one log of type activity into the list, stores the new flag, and the sampling
  interval is registered anew with 60 s (idle) or 15 s (active); a later poll that
  finds the same flag changes nothing.
\<close>

theorem C7_idle_edge_logs_once:
  assumes rec: "status s = RECORDING"
    and cur: "currentlyIdle = (now - lastActivityRef s > IDLE_THRESHOLD)"
    and edge: "isIdle s \<noteq> currentlyIdle"
    and again: "(now' - lastActivityRef s > IDLE_THRESHOLD) = currentlyIdle"
  shows "checkIdleInterval_ms = 5000 \<and> IDLE_THRESHOLD = 300000 \<and>
         (\<exists>l. logs (step s (IdlePoll now i t)) = l # logs s \<and> log_type l = activity) \<and>
         isIdle (step s (IdlePoll now i t)) = currentlyIdle \<and>
         analysisIntervalRef (step s (IdlePoll now i t)) =
           Some (if currentlyIdle then 60000 else 15000) \<and>
         step (step s (IdlePoll now i t)) (IdlePoll now' i' t') = step s (IdlePoll now i t)"
proof -
  let ?l = "idle_log s currentlyIdle i t"
  let ?h = "(add_log ?l s)\<lparr> isIdle := currentlyIdle \<rparr>"
  have h: "checkIdle now i t s = ?h"
    using rec cur edge by (simp add: checkIdle_edge)
  have "analysis_effect s ?h = startAnalysisLoop currentlyIdle ?h"
    using rec edge by (simp add: analysis_effect_def handleActivity_def add_log_def)
  then have st: "step s (IdlePoll now i t) = startAnalysisLoop currentlyIdle ?h"
    unfolding step_def handle.simps h .
  have l: "logs (step s (IdlePoll now i t)) = ?l # logs s"
    by (simp add: st startAnalysisLoop_def add_log_def)
  have ty: "log_type ?l = activity"
    by (simp add: idle_log_def)
  have idle: "isIdle (step s (IdlePoll now i t)) = currentlyIdle"
    by (simp add: st startAnalysisLoop_def add_log_def)
  have freq: "analysisIntervalRef (step s (IdlePoll now i t)) =
      Some (if currentlyIdle then 60000 else 15000)"
    by (simp add: st startAnalysisLoop_def frequency_def)
  have last: "lastActivityRef (step s (IdlePoll now i t)) = lastActivityRef s"
    by (simp add: st startAnalysisLoop_def add_log_def)
  have "checkIdle now' i' t' (step s (IdlePoll now i t)) = step s (IdlePoll now i t)"
    by (rule checkIdle_no_edge) (simp add: idle last again)
  then have stable: "step (step s (IdlePoll now i t)) (IdlePoll now' i' t') = step s (IdlePoll now i t)"
    by (simp add: step_def)
  show ?thesis
    using l ty idle freq stable by (simp add: checkIdleInterval_ms_def IDLE_THRESHOLD_def)
qed

theorem C7_idle_edge_logs_once_witness:
  "status recording_state = RECORDING \<and>
   isIdle recording_state \<noteq> (400000 - lastActivityRef recording_state > IDLE_THRESHOLD) \<and>
   (\<exists>l. logs (step recording_state (IdlePoll 400000 400001 400002)) = l # logs recording_state
        \<and> log_type l = activity) \<and>
   isIdle (step recording_state (IdlePoll 400000 400001 400002)) \<and>
   analysisIntervalRef (step recording_state (IdlePoll 400000 400001 400002)) = Some 60000 \<and>
   step (step recording_state (IdlePoll 400000 400001 400002)) (IdlePoll 405000 405001 405002)
     = step recording_state (IdlePoll 400000 400001 400002)"
proof -
  have r: "status recording_state = RECORDING"
    by (simp add: recording_state_status)
  have la: "lastActivityRef recording_state = 10" and i: "\<not> isIdle recording_state"
    by (simp_all add: recording_state_lastActivity recording_state_isIdle)
  have c: "True = (400000 - lastActivityRef recording_state > IDLE_THRESHOLD)"
    by (simp add: la IDLE_THRESHOLD_def)
  have e: "isIdle recording_state \<noteq> True"
    using i by simp
  have a: "(405000 - lastActivityRef recording_state > IDLE_THRESHOLD) = True"
    by (simp add: la IDLE_THRESHOLD_def)
  show ?thesis
    using C7_idle_edge_logs_once [OF r c e a, of 400001 400002 405001 405002] r i c
    by simp
qed

subsection \<open>A start that fails after the camera was acquired\<close>

text \<open>
  C8. Claimed: when a step of \<open>start()\<close> fails, an error message is shown, the state
  stays \<open>IDLE\<close>, and every media resource acquired before the failure is released. The
  code at a start from \<open>IDLE\<close> in which camera, microphone and screen are granted and the
  \<open>MediaRecorder\<close> constructor then throws \<open>NotSupportedError\<close>: the alert is shown and
  the status is still \<open>IDLE\<close>, but the \<open>catch\<close> block releases nothing: the camera
  stream (1), the processed stream (2), the screen stream (3) and the compositor stream
  (5) are all still live and both render loops are still registered.
\<close>

theorem C8_failed_start_keeps_streams:
  "status (step mounted (Start 10 (start_recorder_unsupported ''id-at-start'' 10))) = IDLE \<and>
   effects (step mounted (Start 10 (start_recorder_unsupported ''id-at-start'' 10))) =
     [Alert ''Error accessing devices: mimeType is not supported.''] \<and>
   rawCameraStreamRef (step mounted (Start 10 (start_recorder_unsupported ''id-at-start'' 10)))
     = Some 1 \<and>
   liveStreams (step mounted (Start 10 (start_recorder_unsupported ''id-at-start'' 10)))
     = {5, 3, 2, 1} \<and>
   loopsRef (step mounted (Start 10 (start_recorder_unsupported ''id-at-start'' 10)))
     = [SegmentationLoop, CompositorLoop] \<and>
   mediaRecorderRef (step mounted (Start 10 (start_recorder_unsupported ''id-at-start'' 10)))
     = None"
  by (simp add: step_def startMonitoring_def start_recording_def
      acquire_screen_def prepare_processed_def init_segmentation_def start_ok_def
      start_recorder_unsupported_def start_catch_def alert_message_def emit_def
      analysis_effect_def handleActivity_def
      mounted_def initial_monitor_def Let_def)

subsection \<open>The End button and the recorder's stop task\<close>

lemma stopLoops_fields [simp]:
  "effects (stopLoops s) = effects s" "chunksRef (stopLoops s) = chunksRef s"
  "mediaRecorderRef (stopLoops s) = mediaRecorderRef s" "status (stopLoops s) = status s"
  "elapsedTime (stopLoops s) = elapsedTime s" "logs (stopLoops s) = logs s"
  "activeSessionId (stopLoops s) = activeSessionId s"
  "sw_session_meta (stopLoops s) = sw_session_meta s"
  by (simp_all add: stopLoops_def)

lemma stop_streams_fields [simp]:
  "effects (stop_streams s) = effects s" "chunksRef (stop_streams s) = chunksRef s"
  "mediaRecorderRef (stop_streams s) = mediaRecorderRef s" "status (stop_streams s) = status s"
  "elapsedTime (stop_streams s) = elapsedTime s" "logs (stop_streams s) = logs s"
  "activeSessionId (stop_streams s) = activeSessionId s"
  "sw_session_meta (stop_streams s) = sw_session_meta s"
  by (simp_all add: stop_streams_def)

text \<open>
  With a recorder that is recording or paused, End changes nothing outside the
  component: it installs the handler with the values of the current render.
\<close>

lemma step_End_active:
  assumes "status q \<noteq> IDLE" "mediaRecorderRef q = Some r" "rec_state r \<noteq> inactive"
  shows "step q (End tc) =
           (stopLoops (stop_streams q))
             \<lparr> timerRef := False, analysisIntervalRef := None,
               mediaRecorderRef := Some (r\<lparr> onstop := Some (closure_of q),
                                             rec_state := inactive, stop_queued := True \<rparr>),
               status := IDLE, isCameraEnabled := True, isIdle := False,
               lastActivityRef := tc \<rparr>"
  using assms
  by (simp add: step_def stopMonitoring_def stopMonitoringWith_def Let_def analysis_effect_def handleActivity_def)

lemma step_End_active_fields:
  assumes "status q \<noteq> IDLE" "mediaRecorderRef q = Some r" "rec_state r \<noteq> inactive"
  shows "effects (step q (End tc)) = effects q" "chunksRef (step q (End tc)) = chunksRef q"
    "status (step q (End tc)) = IDLE" "logs (step q (End tc)) = logs q"
    "elapsedTime (step q (End tc)) = elapsedTime q"
    "activeSessionId (step q (End tc)) = activeSessionId q"
    "mediaRecorderRef (step q (End tc)) =
       Some (r\<lparr> onstop := Some (closure_of q), rec_state := inactive, stop_queued := True \<rparr>)"
    "isIdle (step q (End tc)) = False"
  by (simp_all add: step_End_active [OF assms])

text \<open>The chunk buffer once the recorder has delivered its last data.\<close>

lemma chunks_after_last_data:
  "chunksRef (ondataavailable d s) = chunksRef s @ (if d \<noteq> [] then [d] else [])"
  by (simp add: ondataavailable_def)

lemma onstop_handler_effects:
  "effects (onstop_handler c db s) =
     effects s @
     (if chunksRef s \<noteq> []
      then [SaveVideoToDB (closure_sessionId c) (new_Blob (chunksRef s))] else []) @
     (if chunksRef s \<noteq> [] \<and>
         saveVideoToDB db (closure_sessionId c) (new_Blob (chunksRef s)) \<noteq> Resolved ()
      then []
      else [ClearRecoveryChunks, RemoveSessionMeta,
            SessionComplete (closure_sessionId c) (closure_elapsedTime c) (closure_logs c)
              (if chunksRef s \<noteq> [] then Some (new_Blob (chunksRef s)) else None)] @
           (if closure_logs c \<noteq> [] then [SaveLogsToDB (closure_sessionId c) (closure_logs c)]
            else []))"
  by (cases "saveVideoToDB db (closure_sessionId c) (new_Blob (chunksRef s))")
    (simp_all add: onstop_handler_def Let_def emit_def)

lemma onstop_handler_status [simp]:
  "status (onstop_handler c db s) = status s" "isIdle (onstop_handler c db s) = isIdle s"
  "mediaRecorderRef (onstop_handler c db s) = mediaRecorderRef s"
  by (simp_all add: onstop_handler_def Let_def emit_def split: promise.splits)

lemma ondataavailable_fields [simp]:
  "effects (ondataavailable d s) = effects s" "status (ondataavailable d s) = status s"
  "isIdle (ondataavailable d s) = isIdle s"
  "mediaRecorderRef (ondataavailable d s) = mediaRecorderRef s"
  "activeSessionId (ondataavailable d s) = activeSessionId s"
  "logs (ondataavailable d s) = logs s" "elapsedTime (ondataavailable d s) = elapsedTime s"
  by (simp_all add: ondataavailable_def)

lemma step_RecorderStopped:
  "step e (RecorderStopped d db) = recorder_stop_task d db e"
  by (simp add: step_def analysis_effect_def handleActivity_def recorder_stop_task_def Let_def
      split: option.splits)

text \<open>
  End with an active recorder, followed by the recorder's stop task: what is done to
  the world, in order.
\<close>

lemma effects_End_RecorderStopped:
  assumes "status q \<noteq> IDLE" "mediaRecorderRef q = Some r" "rec_state r \<noteq> inactive"
  shows "effects (run q [End tc, RecorderStopped d db]) =
     effects q @
     (if chunksRef q @ (if d \<noteq> [] then [d] else []) \<noteq> []
      then [SaveVideoToDB (activeSessionId q)
              (new_Blob (chunksRef q @ (if d \<noteq> [] then [d] else [])))] else []) @
     (if chunksRef q @ (if d \<noteq> [] then [d] else []) \<noteq> [] \<and>
         saveVideoToDB db (activeSessionId q)
           (new_Blob (chunksRef q @ (if d \<noteq> [] then [d] else []))) \<noteq> Resolved ()
      then []
      else [ClearRecoveryChunks, RemoveSessionMeta,
            SessionComplete (activeSessionId q) (elapsedTime q) (logs q)
              (if chunksRef q @ (if d \<noteq> [] then [d] else []) \<noteq> []
               then Some (new_Blob (chunksRef q @ (if d \<noteq> [] then [d] else [])))
               else None)] @
           (if logs q \<noteq> [] then [SaveLogsToDB (activeSessionId q) (logs q)] else []))"
proof -
  let ?e = "step q (End tc)"
  let ?r = "r\<lparr> onstop := Some (closure_of q), rec_state := inactive, stop_queued := True \<rparr>"
  let ?e1 = "ondataavailable d (?e\<lparr> mediaRecorderRef := Some (?r\<lparr> stop_queued := False \<rparr>) \<rparr>)"
  have m: "mediaRecorderRef ?e = Some ?r"
    by (rule step_End_active_fields [OF assms])
  have task: "recorder_stop_task d db ?e = onstop_handler (closure_of q) db ?e1"
    by (simp add: recorder_stop_task_def m Let_def)
  have ch: "chunksRef ?e1 = chunksRef q @ (if d \<noteq> [] then [d] else [])"
    by (simp add: chunks_after_last_data step_End_active_fields [OF assms])
  have ef: "effects ?e1 = effects q"
    by (simp add: step_End_active_fields [OF assms])
  have "run q [End tc, RecorderStopped d db] = onstop_handler (closure_of q) db ?e1"
    by (simp add: run_def step_RecorderStopped task)
  then show ?thesis
    by (simp only: onstop_handler_effects ch ef) (simp add: closure_of_def)
qed

subsection \<open>Evaluation of the concrete runs\<close>

lemma sampled_eq:
  "sampled = recording_state\<lparr> logs := [sample_log], currentAnalysis := fallback_result \<rparr>"
  by (simp add: sampled_def recording_state_eq step_def analysis_tick_def record_result_def
      read_property_def sample_audio_def
      sample_no_key_def analyzeSessionContext_def analyze_try_def getClient_def
      classifier_no_key_def analysis_log_def add_log_def fallback_result_def sample_log_def
      analysis_effect_def handleActivity_def mounted_def initial_monitor_def)

lemma paused_state_eq:
  "paused_state =
     sampled\<lparr> status := PAUSED, lastActivityRef := 20000, analysisIntervalRef := None,
              mediaRecorderRef := Some \<lparr> rec_state = paused, onstop = None,
                                          stop_queued = False \<rparr>,
              sw_session_meta := Some sample_meta,
              effects := [SetSessionMeta sample_meta,
                          SaveLogsToDB ''id-at-start'' [sample_log]] \<rparr>"
  by (simp add: paused_state_def sampled_eq recording_state_eq step_def pauseMonitoring_def
      saveSessionToStorage_def emit_def analysis_effect_def handleActivity_def sample_meta_def
      mounted_def initial_monitor_def Let_def)

lemma recovered_eq:
  "recovered =
     (initial_monitor ''employee1'' ''id-after-reload'' 30000)
       \<lparr> status := PAUSED, logs := [stripThumbnail sample_log], lastActivityRef := 31000,
         sw_session_meta := Some sample_meta,
         effects := [SetSessionMeta sample_meta,
                     SaveLogsToDB ''id-at-start'' [sample_log]] \<rparr>"
  by (simp add: recovered_def run_def paused_state_eq sampled_eq recording_state_eq step_def
      reload_def checkSavedSession_def handleResumeSession_def analysis_effect_def handleActivity_def
      sample_meta_def mounted_def initial_monitor_def Let_def)

lemma resumed_eq:
  "resumed =
     recovered\<lparr> status := RECORDING, lastActivityRef := 32000, timerRef := True,
                analysisIntervalRef := Some 15000,
                loopsRef := [SegmentationLoop, CompositorLoop],
                segmentationRef := True, isSegmentationReadyRef := True,
                mediaRecorderRef := Some \<lparr> rec_state = recording, onstop = None,
                                            stop_queued = False \<rparr>,
                streamRef := Some 5, screenStreamRef := Some 3, rawCameraStreamRef := Some 1,
                processedCameraStreamRef := Some 2,
                screenTrack_onended :=
                  Some \<lparr> closure_sessionId = ''id-after-reload'', closure_elapsedTime = 0,
                         closure_logs = [stripThumbnail sample_log] \<rparr>,
                liveStreams := {5, 3, 2, 1} \<rparr>"
  by (simp add: resumed_def recovered_eq step_def resumeMonitoring_def stream_active_def
      startMonitoring_def start_recording_def
      acquire_screen_def prepare_processed_def init_segmentation_def start_ok_def
      startAnalysisLoop_def frequency_def closure_of_def analysis_effect_def handleActivity_def
      initial_monitor_def Let_def)

subsection \<open>What the events of a session leave unchanged\<close>

lemma handleActivity_fields [simp]:
  "status (handleActivity t s) = status s" "logs (handleActivity t s) = logs s"
  "effects (handleActivity t s) = effects s"
  "activeSessionId (handleActivity t s) = activeSessionId s"
  "elapsedTime (handleActivity t s) = elapsedTime s"
  "timerRef (handleActivity t s) = timerRef s"
  "chunksRef (handleActivity t s) = chunksRef s"
  "mediaRecorderRef (handleActivity t s) = mediaRecorderRef s"
  "isIdle (handleActivity t s) = isIdle s"
  "lastActivityRef (handleActivity t s) = t"
  "analysisIntervalRef (handleActivity t s) = analysisIntervalRef s"
  "recorder_active (handleActivity t s) = recorder_active s"
  by (simp_all add: handleActivity_def recorder_active_def)

lemma analysis_effect_fields [simp]:
  "status (analysis_effect a b) = status b" "logs (analysis_effect a b) = logs b"
  "effects (analysis_effect a b) = effects b"
  "activeSessionId (analysis_effect a b) = activeSessionId b"
  "elapsedTime (analysis_effect a b) = elapsedTime b"
  "timerRef (analysis_effect a b) = timerRef b"
  "chunksRef (analysis_effect a b) = chunksRef b"
  "mediaRecorderRef (analysis_effect a b) = mediaRecorderRef b"
  "isIdle (analysis_effect a b) = isIdle b"
  "lastActivityRef (analysis_effect a b) = lastActivityRef b"
  by (simp_all add: analysis_effect_def handleActivity_def startAnalysisLoop_def)

lemma start_catch_fields [simp]:
  "status (start_catch e s) = status s" "logs (start_catch e s) = logs s"
  "activeSessionId (start_catch e s) = activeSessionId s"
  "elapsedTime (start_catch e s) = elapsedTime s" "timerRef (start_catch e s) = timerRef s"
  "chunksRef (start_catch e s) = chunksRef s"
  "mediaRecorderRef (start_catch e s) = mediaRecorderRef s"
  by (simp_all add: start_catch_def emit_def)

lemma start_catch_effects [simp]:
  "effects (start_catch e s) = effects s @ [Alert (alert_message e)]"
  by (simp add: start_catch_def emit_def)

lemma start_steps_fields [simp]:
  "status (init_segmentation env s) = status s" "logs (init_segmentation env s) = logs s"
  "activeSessionId (init_segmentation env s) = activeSessionId s"
  "effects (init_segmentation env s) = effects s"
  "elapsedTime (init_segmentation env s) = elapsedTime s"
  "timerRef (init_segmentation env s) = timerRef s"
  "mediaRecorderRef (init_segmentation env s) = mediaRecorderRef s"
  "status (prepare_processed env s) = status s" "logs (prepare_processed env s) = logs s"
  "activeSessionId (prepare_processed env s) = activeSessionId s"
  "effects (prepare_processed env s) = effects s"
  "elapsedTime (prepare_processed env s) = elapsedTime s"
  "timerRef (prepare_processed env s) = timerRef s"
  "mediaRecorderRef (prepare_processed env s) = mediaRecorderRef s"
  "status (acquire_screen env s) = status s" "logs (acquire_screen env s) = logs s"
  "activeSessionId (acquire_screen env s) = activeSessionId s"
  "effects (acquire_screen env s) = effects s"
  "elapsedTime (acquire_screen env s) = elapsedTime s"
  "timerRef (acquire_screen env s) = timerRef s"
  "mediaRecorderRef (acquire_screen env s) = mediaRecorderRef s"
  by (simp_all add: init_segmentation_def prepare_processed_def acquire_screen_def Let_def
      split: segmentation_init.splits option.splits)

lemma start_recording_keeps:
  "logs (start_recording env s0 s) = logs s"
  "activeSessionId (start_recording env s0 s) = activeSessionId s"
  "elapsedTime (start_recording env s0 s) = elapsedTime s"
  "status (start_recording env s0 s) = status s \<or> status (start_recording env s0 s) = RECORDING"
  "timerRef s \<Longrightarrow> timerRef (start_recording env s0 s)"
  by (simp_all add: start_recording_def Let_def startAnalysisLoop_def split: option.splits)

lemma start_recording_effects:
  "effects (start_recording env s0 s) = effects s \<or>
   (\<exists>m. effects (start_recording env s0 s) = effects s @ [Alert m])"
  by (auto simp: start_recording_def Let_def startAnalysisLoop_def split: option.splits)

lemma startMonitoring_keeps:
  "logs (startMonitoring env s) = logs s"
  "elapsedTime (startMonitoring env s) = elapsedTime s"
  "status (startMonitoring env s) = status s \<or> status (startMonitoring env s) = RECORDING"
  "status s \<noteq> IDLE \<Longrightarrow> activeSessionId (startMonitoring env s) = activeSessionId s"
  "status s = IDLE \<Longrightarrow> activeSessionId (startMonitoring env s) = randomUUID env"
  "timerRef s \<Longrightarrow> timerRef (startMonitoring env s)"
proof -
  show "logs (startMonitoring env s) = logs s"
    by (simp add: startMonitoring_def Let_def start_recording_keeps split: promise.splits)
  show "elapsedTime (startMonitoring env s) = elapsedTime s"
    by (simp add: startMonitoring_def Let_def start_recording_keeps split: promise.splits)
  show "status s \<noteq> IDLE \<Longrightarrow> activeSessionId (startMonitoring env s) = activeSessionId s"
    by (simp add: startMonitoring_def Let_def start_recording_keeps split: promise.splits)
  show "status s = IDLE \<Longrightarrow> activeSessionId (startMonitoring env s) = randomUUID env"
    by (simp add: startMonitoring_def Let_def start_recording_keeps split: promise.splits)
  show "timerRef s \<Longrightarrow> timerRef (startMonitoring env s)"
    by (simp add: startMonitoring_def Let_def start_recording_keeps split: promise.splits)
  show "status (startMonitoring env s) = status s \<or> status (startMonitoring env s) = RECORDING"
  proof (cases "getUserMedia env")
    case (Rejected e)
    then show ?thesis by (simp add: startMonitoring_def Let_def)
  next
    case (Resolved u)
    then show ?thesis
      using start_recording_keeps(4) [of env s
          "acquire_screen env (prepare_processed env (init_segmentation env
             ((if status s = IDLE then s\<lparr> chunksRef := [], activeSessionId := randomUUID env \<rparr>
               else s)\<lparr> lastActivityRef := start_now env, isIdle := False,
                        rawCameraStreamRef := Some u,
                        liveStreams := insert u (liveStreams s),
                        isCameraEnabled := True \<rparr>)))"]
      by (auto simp: startMonitoring_def Let_def)
  qed
qed

lemma startMonitoring_effects:
  "effects (startMonitoring env s) = effects s \<or>
   (\<exists>m. effects (startMonitoring env s) = effects s @ [Alert m])"
proof (cases "getUserMedia env")
  case (Rejected e)
  then show ?thesis
    by (simp add: startMonitoring_def Let_def)
next
  case (Resolved u)
  then show ?thesis
    using start_recording_effects [of env s
          "acquire_screen env (prepare_processed env (init_segmentation env
             ((if status s = IDLE then s\<lparr> chunksRef := [], activeSessionId := randomUUID env \<rparr>
               else s)\<lparr> lastActivityRef := start_now env, isIdle := False,
                        rawCameraStreamRef := Some u,
                        liveStreams := insert u (liveStreams s),
                        isCameraEnabled := True \<rparr>)))"]
    by (auto simp: startMonitoring_def Let_def)
qed

lemma saveSessionToStorage_fields [simp]:
  "status (saveSessionToStorage i now t ls cs s) = status s"
  "logs (saveSessionToStorage i now t ls cs s) = logs s"
  "activeSessionId (saveSessionToStorage i now t ls cs s) = activeSessionId s"
  "elapsedTime (saveSessionToStorage i now t ls cs s) = elapsedTime s"
  "timerRef (saveSessionToStorage i now t ls cs s) = timerRef s"
  "chunksRef (saveSessionToStorage i now t ls cs s) = chunksRef s"
  "mediaRecorderRef (saveSessionToStorage i now t ls cs s) = mediaRecorderRef s"
  "isIdle (saveSessionToStorage i now t ls cs s) = isIdle s"
  by (simp_all add: saveSessionToStorage_def Let_def emit_def)

lemma saveSessionToStorage_effects:
  "effects (saveSessionToStorage i now t ls cs s) =
     effects s @
     [SetSessionMeta \<lparr> meta_elapsedTime = t, meta_logs = map stripThumbnail ls,
                       meta_timestamp = now, wasRecording = True \<rparr>] @
     (if cs \<noteq> [] then [SaveRecoveryChunks cs] else []) @
     (if ls \<noteq> [] then [SaveLogsToDB i ls] else [])"
  by (simp add: saveSessionToStorage_def Let_def emit_def)

lemma pauseMonitoring_fields [simp]:
  "status (pauseMonitoring now s) = PAUSED"
  "logs (pauseMonitoring now s) = logs s"
  "activeSessionId (pauseMonitoring now s) = activeSessionId s"
  "elapsedTime (pauseMonitoring now s) = elapsedTime s"
  "timerRef (pauseMonitoring now s) = timerRef s"
  "chunksRef (pauseMonitoring now s) = chunksRef s"
  "recorder_active (pauseMonitoring now s) = recorder_active s"
  by (simp_all add: pauseMonitoring_def Let_def recorder_active_def split: option.splits)

lemma pauseMonitoring_effects:
  "effects (pauseMonitoring now s) =
     effects s @
     [SetSessionMeta \<lparr> meta_elapsedTime = elapsedTime s,
                       meta_logs = map stripThumbnail (logs s),
                       meta_timestamp = now, wasRecording = True \<rparr>] @
     (if chunksRef s \<noteq> [] then [SaveRecoveryChunks (chunksRef s)] else []) @
     (if logs s \<noteq> [] then [SaveLogsToDB (activeSessionId s) (logs s)] else [])"
  by (simp add: pauseMonitoring_def Let_def saveSessionToStorage_effects split: option.splits)

lemma resumeMonitoring_keeps:
  "logs (resumeMonitoring env s) = logs s"
  "elapsedTime (resumeMonitoring env s) = elapsedTime s"
  "status s \<noteq> IDLE \<Longrightarrow> activeSessionId (resumeMonitoring env s) = activeSessionId s"
  "timerRef s \<Longrightarrow> timerRef (resumeMonitoring env s)"
  by (simp_all add: resumeMonitoring_def Let_def startAnalysisLoop_def startMonitoring_keeps
      split: option.splits)

lemma resumeMonitoring_status:
  "status s \<noteq> IDLE \<Longrightarrow> status (resumeMonitoring env s) \<noteq> IDLE"
proof (cases "stream_active s")
  case True
  then show ?thesis
    by (simp add: resumeMonitoring_def Let_def startAnalysisLoop_def split: option.splits)
next
  case False
  assume "status s \<noteq> IDLE"
  with False startMonitoring_keeps(3) [of env s] show ?thesis
    by (auto simp: resumeMonitoring_def)
qed

lemma resumeMonitoring_effects:
  "effects (resumeMonitoring env s) = effects s \<or>
     (\<exists>m. effects (resumeMonitoring env s) = effects s @ [Alert m])"
proof (cases "stream_active s")
  case True
  then show ?thesis
    by (simp add: resumeMonitoring_def Let_def startAnalysisLoop_def split: option.splits)
next
  case False
  with startMonitoring_effects [of env s] show ?thesis
    by (simp add: resumeMonitoring_def)
qed

lemma checkIdle_fields [simp]:
  "status (checkIdle now i t s) = status s"
  "activeSessionId (checkIdle now i t s) = activeSessionId s"
  "elapsedTime (checkIdle now i t s) = elapsedTime s"
  "effects (checkIdle now i t s) = effects s"
  "timerRef (checkIdle now i t s) = timerRef s"
  by (simp_all add: checkIdle_def Let_def add_log_def)

lemma checkIdle_logs:
  "logs (checkIdle now i t s) = logs s \<or>
   (\<exists>l. logs (checkIdle now i t s) = l # logs s \<and> timestamp l = t)"
  by (simp add: checkIdle_def Let_def add_log_def idle_log_def)

lemma record_result_fields:
  "status (snd (record_result env r s)) = status s \<and>
   activeSessionId (snd (record_result env r s)) = activeSessionId s \<and>
   elapsedTime (snd (record_result env r s)) = elapsedTime s \<and>
   effects (snd (record_result env r s)) = effects s \<and>
   timerRef (snd (record_result env r s)) = timerRef s \<and>
   (logs (snd (record_result env r s)) = logs s \<or>
    (\<exists>l. logs (snd (record_result env r s)) = l # logs s \<and> timestamp l = sample_ts_now env))"
  by (cases r)
    (simp_all add: record_result_null record_result_object record_result_other add_log_def
       analysis_log_def)

lemma analysis_tick_fields:
  "status (snd (analysis_tick env s)) = status s \<and>
   activeSessionId (snd (analysis_tick env s)) = activeSessionId s \<and>
   elapsedTime (snd (analysis_tick env s)) = elapsedTime s \<and>
   effects (snd (analysis_tick env s)) = effects s \<and>
   timerRef (snd (analysis_tick env s)) = timerRef s \<and>
   (logs (snd (analysis_tick env s)) = logs s \<or>
    (\<exists>l. logs (snd (analysis_tick env s)) = l # logs s \<and> timestamp l = sample_ts_now env))"
proof (cases "refs_mounted env \<and> context_2d env")
  case False
  then show ?thesis
    by (auto simp: analysis_tick_def)
next
  case True
  show ?thesis
  proof (cases "sample_audio env s")
    case (Inl e)
    with True show ?thesis
      by (simp add: analysis_tick_def)
  next
    case (Inr a)
    obtain r where "analyzeSessionContext (classifier env) (imageBase64 env) a = Resolved r"
      using analyzeSessionContext_resolves by blast
    with True Inr have "analysis_tick env s = record_result env r s"
      by (simp add: analysis_tick_classified)
    then show ?thesis
      using record_result_fields [of env r s] by simp
  qed
qed

lemma checkpoint_fields [simp]:
  "status (checkpoint now s) = status s" "logs (checkpoint now s) = logs s"
  "activeSessionId (checkpoint now s) = activeSessionId s"
  "elapsedTime (checkpoint now s) = elapsedTime s"
  "timerRef (checkpoint now s) = timerRef s"
  by (simp_all add: checkpoint_def)

text \<open>
  The effects that an event of a session may add: no call of \<open>onSessionComplete\<close>, and
  logs written to the store only under the session id.
\<close>

lemma adds_session_effects_iff:
  "adds_session_effects s s' \<longleftrightarrow>
     (\<exists>new. effects s' = effects s @ new \<and>
            (\<forall>e \<in> set new. \<not> is_SessionComplete e \<and>
               (\<forall>i. log_save_id e = Some i \<longrightarrow> i = activeSessionId s)))"
proof
  assume a: "adds_session_effects s s'"
  let ?new = "drop (length (effects s)) (effects s')"
  have "take (length (effects s)) (effects s') = effects s"
    using a by (simp add: adds_session_effects_def)
  then have "effects s' = effects s @ ?new"
    using append_take_drop_id [of "length (effects s)" "effects s'"] by simp
  moreover have "\<forall>e \<in> set ?new. \<not> is_SessionComplete e \<and>
               (\<forall>i. log_save_id e = Some i \<longrightarrow> i = activeSessionId s)"
    using a by (auto simp: adds_session_effects_def list_all_iff session_effect_def)
  ultimately show "\<exists>new. effects s' = effects s @ new \<and>
            (\<forall>e \<in> set new. \<not> is_SessionComplete e \<and>
               (\<forall>i. log_save_id e = Some i \<longrightarrow> i = activeSessionId s))"
    by blast
next
  assume "\<exists>new. effects s' = effects s @ new \<and>
            (\<forall>e \<in> set new. \<not> is_SessionComplete e \<and>
               (\<forall>i. log_save_id e = Some i \<longrightarrow> i = activeSessionId s))"
  then obtain new where n: "effects s' = effects s @ new"
    "\<forall>e \<in> set new. \<not> is_SessionComplete e \<and>
               (\<forall>i. log_save_id e = Some i \<longrightarrow> i = activeSessionId s)"
    by blast
  show "adds_session_effects s s'"
    using n by (auto simp: adds_session_effects_def list_all_iff session_effect_def
        split: option.splits)
qed

lemma adds_session_effects_same:
  "effects s' = effects s \<Longrightarrow> adds_session_effects s s'"
  by (simp add: adds_session_effects_iff)

lemma adds_session_effects_alert:
  "effects s' = effects s @ [Alert m] \<Longrightarrow> adds_session_effects s s'"
  by (simp add: adds_session_effects_iff)

lemma adds_session_effects_save:
  "effects s' = effects s @ [SetSessionMeta m] @
                (if cs \<noteq> [] then [SaveRecoveryChunks cs] else []) @
                (if ls \<noteq> [] then [SaveLogsToDB (activeSessionId s) ls] else [])
   \<Longrightarrow> adds_session_effects s s'"
  by (auto simp: adds_session_effects_iff)

lemma adds_session_effects_trans:
  assumes "adds_session_effects a b" "adds_session_effects b c"
    "activeSessionId b = activeSessionId a"
  shows "adds_session_effects a c"
proof -
  from assms(1) obtain n1 where n1: "effects b = effects a @ n1"
    "\<forall>e \<in> set n1. \<not> is_SessionComplete e \<and>
        (\<forall>i. log_save_id e = Some i \<longrightarrow> i = activeSessionId a)"
    unfolding adds_session_effects_iff by blast
  from assms(2) obtain n2 where n2: "effects c = effects b @ n2"
    "\<forall>e \<in> set n2. \<not> is_SessionComplete e \<and>
        (\<forall>i. log_save_id e = Some i \<longrightarrow> i = activeSessionId b)"
    unfolding adds_session_effects_iff by blast
  have "effects c = effects a @ (n1 @ n2)"
    using n1(1) n2(1) by simp
  moreover have "\<forall>e \<in> set (n1 @ n2). \<not> is_SessionComplete e \<and>
        (\<forall>i. log_save_id e = Some i \<longrightarrow> i = activeSessionId a)"
    using n1(2) n2(2) assms(3) by auto
  ultimately show ?thesis
    unfolding adds_session_effects_iff by blast
qed

lemma handle_AnalysisTick_cases:
  "handle (AnalysisTick env) s = s \<or> handle (AnalysisTick env) s = snd (analysis_tick env s)"
  by simp

lemma step_within_session_status:
  assumes w: "within_session ev" and st: "status s \<noteq> IDLE"
  shows "status (step s ev) \<noteq> IDLE"
proof (cases ev)
  case (Resume tc env)
  then show ?thesis
    using st resumeMonitoring_status [of s env] by (simp add: step_def)
next
  case (AnalysisTick env)
  then show ?thesis
    using st handle_AnalysisTick_cases [of env s] analysis_tick_fields [of env s]
    by (auto simp: step_def simp del: handle.simps)
qed (use w st in \<open>simp_all add: step_def toggleCamera_def timer_tick_def ondataavailable_def\<close>)

lemma step_within_session_id:
  assumes w: "within_session ev" and st: "status s \<noteq> IDLE"
  shows "activeSessionId (step s ev) = activeSessionId s"
proof (cases ev)
  case (Resume tc env)
  then show ?thesis
    using st by (simp add: step_def resumeMonitoring_keeps)
next
  case (AnalysisTick env)
  then show ?thesis
    using handle_AnalysisTick_cases [of env s] analysis_tick_fields [of env s]
    by (auto simp: step_def simp del: handle.simps)
qed (use w in \<open>simp_all add: step_def toggleCamera_def timer_tick_def ondataavailable_def\<close>)

lemma step_within_session_effects:
  assumes w: "within_session ev"
  shows "adds_session_effects s (step s ev)"
proof (cases ev)
  case (Pause tc now)
  then show ?thesis
    by (auto simp: step_def pauseMonitoring_effects
        intro: adds_session_effects_same adds_session_effects_save)
next
  case (Resume tc env)
  then show ?thesis
    using resumeMonitoring_effects [of env s]
    by (auto simp: step_def intro: adds_session_effects_same adds_session_effects_alert)
next
  case (AnalysisTick env)
  then show ?thesis
    using handle_AnalysisTick_cases [of env s] analysis_tick_fields [of env s]
    by (auto simp: step_def simp del: handle.simps intro: adds_session_effects_same)
next
  case (Checkpoint now)
  then show ?thesis
    by (auto simp: step_def checkpoint_def saveSessionToStorage_effects
        intro: adds_session_effects_same adds_session_effects_save)
qed (use w in \<open>simp_all add: step_def toggleCamera_def timer_tick_def ondataavailable_def
       adds_session_effects_same\<close>)

lemma step_within_session_logs:
  assumes w: "within_session ev"
  shows "logs (step s ev) = logs s \<or>
         (\<exists>l. logs (step s ev) = l # logs s \<and> event_timestamp ev = Some (timestamp l))"
proof (cases ev)
  case (IdlePoll now i t)
  then show ?thesis
    using checkIdle_logs [of now i t s] by (auto simp: step_def)
next
  case (AnalysisTick env)
  then show ?thesis
    using handle_AnalysisTick_cases [of env s] analysis_tick_fields [of env s]
    by (auto simp: step_def simp del: handle.simps)
qed (use w in \<open>simp_all add: step_def toggleCamera_def timer_tick_def ondataavailable_def
       resumeMonitoring_keeps\<close>)

subsection \<open>Runs of session events\<close>

lemma run_Cons: "run s (ev # evs) = run (step s ev) evs"
  by (simp add: run_def)

lemma run_Nil [simp]: "run s [] = s"
  by (simp add: run_def)

lemma run_within_session:
  assumes "\<forall>ev \<in> set evs. within_session ev" "status s \<noteq> IDLE"
  shows "status (run s evs) \<noteq> IDLE \<and> activeSessionId (run s evs) = activeSessionId s \<and>
         adds_session_effects s (run s evs)"
  using assms
proof (induction evs arbitrary: s)
  case Nil
  then show ?case by (simp add: adds_session_effects_same)
next
  case (Cons ev evs)
  have w: "within_session ev" using Cons.prems(1) by simp
  have st: "status (step s ev) \<noteq> IDLE"
    using w Cons.prems(2) by (rule step_within_session_status)
  have i: "activeSessionId (step s ev) = activeSessionId s"
    using w Cons.prems(2) by (rule step_within_session_id)
  have e: "adds_session_effects s (step s ev)"
    using w by (rule step_within_session_effects)
  have ih: "status (run (step s ev) evs) \<noteq> IDLE \<and>
      activeSessionId (run (step s ev) evs) = activeSessionId (step s ev) \<and>
      adds_session_effects (step s ev) (run (step s ev) evs)"
    using Cons.IH [of "step s ev"] Cons.prems(1) st by simp
  show ?case
    using ih i e adds_session_effects_trans [of s "step s ev" "run (step s ev) evs"]
    by (simp add: run_Cons)
qed

lemma sorted_drop_middle:
  "sorted (xs @ (t :: int) # ys) \<Longrightarrow> sorted (xs @ ys)"
  by (auto simp: sorted_append)

lemma run_logs_chronological:
  assumes "\<forall>ev \<in> set evs. within_session ev"
    "sorted (map timestamp (rev (logs s)) @ List.map_filter event_timestamp evs)"
  shows "sorted (map timestamp (rev (logs (run s evs))))"
  using assms
proof (induction evs arbitrary: s)
  case Nil
  then show ?case by simp
next
  case (Cons ev evs)
  have w: "within_session ev" using Cons.prems(1) by simp
  have "sorted (map timestamp (rev (logs (step s ev))) @ List.map_filter event_timestamp evs)"
  proof (cases "event_timestamp ev")
    case None
    then have "logs (step s ev) = logs s"
      using step_within_session_logs [OF w, of s] by auto
    with None Cons.prems(2) show ?thesis
      by simp
  next
    case (Some t)
    then have full: "sorted (map timestamp (rev (logs s)) @ t # List.map_filter event_timestamp evs)"
      using Cons.prems(2) by simp
    from step_within_session_logs [OF w, of s] Some
    consider "logs (step s ev) = logs s"
      | l where "logs (step s ev) = l # logs s" "timestamp l = t"
      by auto
    then show ?thesis
    proof cases
      case 1
      with full show ?thesis by (simp add: sorted_drop_middle)
    next
      case 2
      with full show ?thesis by simp
    qed
  qed
  then show ?case
    using Cons.IH [of "step s ev"] Cons.prems(1) by (simp add: run_Cons)
qed

subsection \<open>Completion\<close>

lemma recorder_activeD:
  "recorder_active q \<Longrightarrow> \<exists>r. mediaRecorderRef q = Some r \<and> rec_state r \<noteq> inactive"
  by (simp add: recorder_active_def split: option.splits)

lemma effects_End_active:
  assumes "status q \<noteq> IDLE" "recorder_active q"
  shows "effects (step q (End tc)) = effects q" "chunksRef (step q (End tc)) = chunksRef q"
    "status (step q (End tc)) = IDLE"
  using assms recorder_activeD [of q] step_End_active_fields by auto

lemma effects_completion:
  assumes st: "status q \<noteq> IDLE" and act: "recorder_active q"
  shows "effects (run q [End tc, RecorderStopped d db]) =
     effects q @
     (if final_chunks q d \<noteq> []
      then [SaveVideoToDB (activeSessionId q) (new_Blob (final_chunks q d))] else []) @
     (if video_save_resolves db q d
      then [ClearRecoveryChunks, RemoveSessionMeta,
            SessionComplete (activeSessionId q) (elapsedTime q) (logs q) (final_video q d)] @
           (if logs q \<noteq> [] then [SaveLogsToDB (activeSessionId q) (logs q)] else [])
      else [])"
proof -
  from act obtain r where r: "mediaRecorderRef q = Some r" "rec_state r \<noteq> inactive"
    using recorder_activeD by blast
  have fc: "final_chunks q d = chunksRef q @ (if d \<noteq> [] then [d] else [])"
    by (simp add: final_chunks_def chunks_after_last_data)
  show ?thesis
    unfolding effects_End_RecorderStopped [OF st r] fc [symmetric]
    by (simp add: video_save_resolves_def final_video_def)
qed

lemma completions_completion:
  assumes "status q \<noteq> IDLE" "recorder_active q" "video_save_resolves db q d"
  shows "completions (run q [End tc, RecorderStopped d db]) =
     completions q @
     [SessionComplete (activeSessionId q) (elapsedTime q) (logs q) (final_video q d)]"
  using assms by (simp add: completions_def effects_completion)

lemma video_saves_append [simp]:
  "video_saves (xs @ ys) = video_saves xs @ video_saves ys"
  by (simp add: video_saves_def map_filter_def)

lemma video_saves_simps [simp]:
  "video_saves [] = []"
  "video_saves (SaveVideoToDB i b # es) = (i, b) # video_saves es"
  "video_saves (ClearRecoveryChunks # es) = video_saves es"
  "video_saves (RemoveSessionMeta # es) = video_saves es"
  "video_saves (SessionComplete i t ls v # es) = video_saves es"
  "video_saves (SaveLogsToDB i ls # es) = video_saves es"
  "video_saves (SetSessionMeta m # es) = video_saves es"
  "video_saves (SaveRecoveryChunks cs # es) = video_saves es"
  "video_saves (Alert a # es) = video_saves es"
  by (simp_all add: video_saves_def)

lemma recorded_chunk_eq:
  "recorded_chunk = recording_state\<lparr> chunksRef := [ [1, 2] ] \<rparr>"
  by (simp add: recorded_chunk_def recording_state_eq step_def recorder_is_def
      ondataavailable_def analysis_effect_def handleActivity_def mounted_def initial_monitor_def)

lemma recorded_chunk_facts:
  "status recorded_chunk = RECORDING" "recorder_active recorded_chunk"
  "effects recorded_chunk = []" "chunksRef recorded_chunk = [ [1, 2] ]"
  "activeSessionId recorded_chunk = ''id-at-start''"
  by (simp_all add: recorded_chunk_eq recording_state_eq recorder_active_def
      mounted_def initial_monitor_def)

text \<open>
  C5. On stop, the video is put together from the chunk buffer inside the recorder's
  \<open>onstop\<close> handler, after the recorder was asked to stop and delivered its last data:
  the call of \<open>stopMonitoring\<close> itself (End with a recorder that is not inactive) does
  nothing to the world and leaves the buffer as it is; the one video handed to the
  store after the recorder's stop task is made of the buffer as it is then, which is the
  buffer at the call followed by the last chunk.
\<close>

theorem C5_video_assembled_in_onstop:
  assumes st: "status q \<noteq> IDLE" and act: "recorder_active q"
  shows "effects (step q (End tc)) = effects q \<and>
         chunksRef (step q (End tc)) = chunksRef q \<and>
         final_chunks q d = chunksRef q @ (if d \<noteq> [] then [d] else []) \<and>
         video_saves (effects (run q [End tc, RecorderStopped d db])) =
           video_saves (effects q) @
           (if final_chunks q d \<noteq> []
            then [(activeSessionId q, new_Blob (final_chunks q d))] else []) \<and>
         (d \<noteq> [] \<longrightarrow> new_Blob (final_chunks q d) = new_Blob (chunksRef q) @ d)"
proof -
  have fc: "final_chunks q d = chunksRef q @ (if d \<noteq> [] then [d] else [])"
    by (simp add: final_chunks_def chunks_after_last_data)
  have v: "video_saves (effects (run q [End tc, RecorderStopped d db])) =
           video_saves (effects q) @
           (if final_chunks q d \<noteq> []
            then [(activeSessionId q, new_Blob (final_chunks q d))] else [])"
    by (simp add: effects_completion [OF st act])
  have b: "d \<noteq> [] \<longrightarrow> new_Blob (final_chunks q d) = new_Blob (chunksRef q) @ d"
    by (simp add: fc new_Blob_def)
  show ?thesis
    using effects_End_active(1,2) [OF st act] fc v b by blast
qed

theorem C5_video_assembled_in_onstop_witness:
  "status recorded_chunk \<noteq> IDLE \<and> recorder_active recorded_chunk \<and>
   effects (step recorded_chunk (End 40000)) = [] \<and>
   chunksRef (step recorded_chunk (End 40000)) = [ [1, 2] ] \<and>
   video_saves (effects (run recorded_chunk [End 40000, RecorderStopped [3] store_ok])) =
     [(''id-at-start'', [1, 2, 3])]"
  using C5_video_assembled_in_onstop
      [where q = recorded_chunk and d = "[3]" and db = store_ok and tc = 40000]
  by (simp add: recorded_chunk_facts new_Blob_def)

subsection \<open>The completion event\<close>

lemma run_completion_state:
  assumes st: "status q \<noteq> IDLE" and act: "recorder_active q"
  shows "status (run q [End tc, RecorderStopped d db]) = IDLE \<and>
         \<not> stop_pending (run q [End tc, RecorderStopped d db])"
proof -
  from act obtain r where r: "mediaRecorderRef q = Some r" "rec_state r \<noteq> inactive"
    using recorder_activeD by blast
  have m: "mediaRecorderRef (step q (End tc)) =
      Some (r\<lparr> onstop := Some (closure_of q), rec_state := inactive, stop_queued := True \<rparr>)"
    by (rule step_End_active_fields [OF st r])
  have s: "status (step q (End tc)) = IDLE"
    by (rule step_End_active_fields [OF st r])
  show ?thesis
    by (simp add: run_def step_RecorderStopped recorder_stop_task_def m s stop_pending_def)
qed

lemma idle_End_RecorderStopped:
  assumes "status f = IDLE" "\<not> stop_pending f"
  shows "run f [End tc, RecorderStopped d db] = f"
  using assms
  by (simp add: run_def step_RecorderStopped)
     (simp add: step_def recorder_stop_task_def stop_pending_def split: option.splits)

lemma stop_fallback_fields [simp]:
  "effects (stop_fallback s) = effects s @ [RemoveSessionMeta]"
  "logs (stop_fallback s) = []" "elapsedTime (stop_fallback s) = 0"
  "mediaRecorderRef (stop_fallback s) = mediaRecorderRef s"
  by (simp_all add: stop_fallback_def emit_def)

lemma step_End_fallback:
  assumes st: "status q \<noteq> IDLE" and act: "\<not> recorder_active q"
  shows "effects (step q (End tc)) = effects q @ [RemoveSessionMeta]" "logs (step q (End tc)) = []"
    "elapsedTime (step q (End tc)) = 0" "status (step q (End tc)) = IDLE"
    "mediaRecorderRef (step q (End tc)) = mediaRecorderRef q"
  using assms
  by (auto simp: step_def stopMonitoring_def stopMonitoringWith_def Let_def
      recorder_active_def split: option.splits)

text \<open>
  C4 (as amended). When End is pressed while the recorder is recording or paused and
  the awaited save of the video does not reject, \<open>onSessionComplete\<close> is called exactly
  once: not by the call of \<open>stopMonitoring\<close> itself but by the recorder's \<open>onstop\<close>
  handler, after the video was handed to the store (when there is one) and the recovery
  state was cleared, and before the final logs are handed to the store; its arguments
  are the session id, the elapsed time and the logs of the render in which End was
  pressed; a further End or stop task adds nothing. When there is no recorder or it is
  inactive (and no stop task is pending), End resets time and logs and
  \<open>onSessionComplete\<close> is not called at all.
\<close>

theorem C4_completion_from_onstop_once:
  "(status q \<noteq> IDLE \<and> recorder_active q \<and> video_save_resolves db q d \<longrightarrow>
      completions (step q (End tc)) = completions q \<and>
      effects (run q [End tc, RecorderStopped d db]) =
        effects q @
        (if final_chunks q d \<noteq> []
         then [SaveVideoToDB (activeSessionId q) (new_Blob (final_chunks q d))] else []) @
        [ClearRecoveryChunks, RemoveSessionMeta,
         SessionComplete (activeSessionId q) (elapsedTime q) (logs q) (final_video q d)] @
        (if logs q \<noteq> [] then [SaveLogsToDB (activeSessionId q) (logs q)] else []) \<and>
      completions (run q [End tc, RecorderStopped d db]) =
        completions q @
        [SessionComplete (activeSessionId q) (elapsedTime q) (logs q) (final_video q d)] \<and>
      run (run q [End tc, RecorderStopped d db]) [End tc', RecorderStopped d' db'] =
        run q [End tc, RecorderStopped d db]) \<and>
   (status q \<noteq> IDLE \<and> \<not> recorder_active q \<and> \<not> stop_pending q \<longrightarrow>
      completions (run q [End tc, RecorderStopped d db]) = completions q \<and>
      logs (run q [End tc, RecorderStopped d db]) = [] \<and>
      elapsedTime (run q [End tc, RecorderStopped d db]) = 0 \<and>
      status (run q [End tc, RecorderStopped d db]) = IDLE)"
proof -
  have active: "completions (step q (End tc)) = completions q \<and>
      effects (run q [End tc, RecorderStopped d db]) =
        effects q @
        (if final_chunks q d \<noteq> []
         then [SaveVideoToDB (activeSessionId q) (new_Blob (final_chunks q d))] else []) @
        [ClearRecoveryChunks, RemoveSessionMeta,
         SessionComplete (activeSessionId q) (elapsedTime q) (logs q) (final_video q d)] @
        (if logs q \<noteq> [] then [SaveLogsToDB (activeSessionId q) (logs q)] else []) \<and>
      completions (run q [End tc, RecorderStopped d db]) =
        completions q @
        [SessionComplete (activeSessionId q) (elapsedTime q) (logs q) (final_video q d)] \<and>
      run (run q [End tc, RecorderStopped d db]) [End tc', RecorderStopped d' db'] =
        run q [End tc, RecorderStopped d db]"
    if h: "status q \<noteq> IDLE \<and> recorder_active q \<and> video_save_resolves db q d"
  proof -
    from h have st: "status q \<noteq> IDLE" and act: "recorder_active q"
      and sv: "video_save_resolves db q d" by simp_all
    have c1: "completions (step q (End tc)) = completions q"
      by (simp add: completions_def effects_End_active(1) [OF st act])
    have e: "effects (run q [End tc, RecorderStopped d db]) =
        effects q @
        (if final_chunks q d \<noteq> []
         then [SaveVideoToDB (activeSessionId q) (new_Blob (final_chunks q d))] else []) @
        [ClearRecoveryChunks, RemoveSessionMeta,
         SessionComplete (activeSessionId q) (elapsedTime q) (logs q) (final_video q d)] @
        (if logs q \<noteq> [] then [SaveLogsToDB (activeSessionId q) (logs q)] else [])"
      using sv by (simp add: effects_completion [OF st act])
    have c2: "completions (run q [End tc, RecorderStopped d db]) =
        completions q @
        [SessionComplete (activeSessionId q) (elapsedTime q) (logs q) (final_video q d)]"
      by (rule completions_completion [OF st act sv])
    have once: "run (run q [End tc, RecorderStopped d db]) [End tc', RecorderStopped d' db'] =
        run q [End tc, RecorderStopped d db]"
      using run_completion_state [OF st act, where d = d and db = db and tc = tc]
      by (simp add: idle_End_RecorderStopped)
    from c1 e c2 once show ?thesis by blast
  qed
  have fallback: "completions (run q [End tc, RecorderStopped d db]) = completions q \<and>
      logs (run q [End tc, RecorderStopped d db]) = [] \<and>
      elapsedTime (run q [End tc, RecorderStopped d db]) = 0 \<and>
      status (run q [End tc, RecorderStopped d db]) = IDLE"
    if h: "status q \<noteq> IDLE \<and> \<not> recorder_active q \<and> \<not> stop_pending q"
  proof -
    from h have st: "status q \<noteq> IDLE" and act: "\<not> recorder_active q"
      and np: "\<not> stop_pending q" by simp_all
    have "\<not> stop_pending (step q (End tc))"
      using np by (simp add: stop_pending_def step_End_fallback(5) [OF st act])
    then have "recorder_stop_task d db (step q (End tc)) = step q (End tc)"
      by (simp add: recorder_stop_task_def stop_pending_def split: option.splits)
    then have "run q [End tc, RecorderStopped d db] = step q (End tc)"
      by (simp add: run_def step_RecorderStopped)
    then show ?thesis
      by (simp add: completions_def step_End_fallback [OF st act])
  qed
  from active fallback show ?thesis by blast
qed

lemma store_ok_saves [simp]: "saveVideoToDB store_ok i b = Resolved ()"
  by (simp add: saveVideoToDB_def async_try_await_return_def initDB_def write_request_def
      new_Promise_def store_ok_def)

lemma sampled_facts:
  "status sampled = RECORDING" "recorder_active sampled" "effects sampled = []"
  "chunksRef sampled = []" "logs sampled = [sample_log]" "elapsedTime sampled = 0"
  "activeSessionId sampled = ''id-at-start''"
  by (simp_all add: sampled_eq recording_state_eq recorder_active_def
      mounted_def initial_monitor_def)

lemma recovered_facts:
  "status recovered = PAUSED" "\<not> recorder_active recovered" "\<not> stop_pending recovered"
  "logs recovered = [stripThumbnail sample_log]" "elapsedTime recovered = 0"
  "activeSessionId recovered = ''id-after-reload''" "completions recovered = []"
  "effects recovered = [SetSessionMeta sample_meta, SaveLogsToDB ''id-at-start'' [sample_log]]"
  by (simp_all add: recovered_eq recorder_active_def stop_pending_def completions_def
      initial_monitor_def)

theorem C4_completion_from_onstop_once_witness:
  "status recorded_chunk \<noteq> IDLE \<and> recorder_active recorded_chunk \<and>
   video_save_resolves store_ok recorded_chunk [3] \<and>
   completions (run recorded_chunk [End 40000, RecorderStopped [3] store_ok]) =
     [SessionComplete ''id-at-start'' 0 [] (Some [1, 2, 3])] \<and>
   run (run recorded_chunk [End 40000, RecorderStopped [3] store_ok]) [End 50000, RecorderStopped [4] store_ok]
     = run recorded_chunk [End 40000, RecorderStopped [3] store_ok] \<and>
   status recovered \<noteq> IDLE \<and> \<not> recorder_active recovered \<and> \<not> stop_pending recovered \<and>
   completions (run recovered [End 40000, RecorderStopped [3] store_ok]) = []"
proof -
  have rc: "status recorded_chunk \<noteq> IDLE \<and> recorder_active recorded_chunk \<and>
      video_save_resolves store_ok recorded_chunk [3]"
    by (simp add: recorded_chunk_facts video_save_resolves_def)
  have rv: "status recovered \<noteq> IDLE \<and> \<not> recorder_active recovered \<and> \<not> stop_pending recovered"
    by (simp add: recovered_facts)
  have fv: "final_video recorded_chunk [3] = Some [1, 2, 3]"
    by (simp add: final_video_def final_chunks_def ondataavailable_def recorded_chunk_facts
        new_Blob_def)
  have el: "elapsedTime recorded_chunk = 0" "logs recorded_chunk = []"
    "completions recorded_chunk = []"
    by (simp_all add: recorded_chunk_eq recording_state_eq completions_def
        mounted_def initial_monitor_def)
  show ?thesis
    using C4_completion_from_onstop_once
        [where q = recorded_chunk and db = store_ok and d = "[3]" and d' = "[4]" and
           db' = store_ok and tc = 40000 and tc' = 50000]
      C4_completion_from_onstop_once
        [where q = recovered and db = store_ok and d = "[3]" and d' = "[4]" and
           db' = store_ok and tc = 40000 and tc' = 50000]
      rc rv
    by (simp add: fv el recorded_chunk_facts recovered_facts)
qed

text \<open>
  C4 as claimed fails in two ways. A session that was started, checkpointed by Pause
  and, after a reload, resumed from the recovery modal is in \<open>PAUSED\<close> with its logs;
  End then finds no recorder, and \<open>onSessionComplete\<close> is never called while the logs
  are dropped. And in the ordinary case the final logs are handed to the store only
  after \<open>onSessionComplete\<close> was called.
\<close>

theorem C4_claim_counterexample:
  "status recovered = PAUSED \<and> logs recovered = [stripThumbnail sample_log] \<and>
   completions (run recovered [End 40000, RecorderStopped [9] store_ok]) = [] \<and>
   logs (run recovered [End 40000, RecorderStopped [9] store_ok]) = [] \<and>
   status (run recovered [End 40000, RecorderStopped [9] store_ok]) = IDLE \<and>
   effects (run sampled [End 40000, RecorderStopped [9] store_ok]) =
     [SaveVideoToDB ''id-at-start'' [9], ClearRecoveryChunks, RemoveSessionMeta,
      SessionComplete ''id-at-start'' 0 [sample_log] (Some [9]),
      SaveLogsToDB ''id-at-start'' [sample_log]]"
proof -
  have st: "status recovered \<noteq> IDLE" and act: "\<not> recorder_active recovered"
    by (simp_all add: recovered_facts)
  have "recorder_stop_task [9] store_ok (step recovered (End 40000)) = step recovered (End 40000)"
    using recovered_facts(3)
    by (simp add: recorder_stop_task_def stop_pending_def step_End_fallback(5) [OF st act]
        split: option.splits)
  then have r: "run recovered [End 40000, RecorderStopped [9] store_ok] = step recovered (End 40000)"
    by (simp add: run_def step_RecorderStopped)
  have a: "completions (step recovered (End 40000)) = []" "logs (step recovered (End 40000)) = []"
    "status (step recovered (End 40000)) = IDLE"
    by (simp_all add: completions_def step_End_fallback [OF st act] recovered_facts)
  have st2: "status sampled \<noteq> IDLE" and act2: "recorder_active sampled"
    by (simp_all add: sampled_facts)
  have b: "effects (run sampled [End 40000, RecorderStopped [9] store_ok]) =
     [SaveVideoToDB ''id-at-start'' [9], ClearRecoveryChunks, RemoveSessionMeta,
      SessionComplete ''id-at-start'' 0 [sample_log] (Some [9]),
      SaveLogsToDB ''id-at-start'' [sample_log]]"
    by (simp add: effects_completion [OF st2 act2] sampled_facts final_chunks_def
        final_video_def video_save_resolves_def ondataavailable_def new_Blob_def)
  show ?thesis
    using a b by (simp add: r recovered_facts)
qed

subsection \<open>Elapsed time while paused\<close>

lemma step_Pause_recording:
  "status s = RECORDING \<Longrightarrow> step s (Pause tc now) = handleActivity tc (pauseMonitoring now s)"
  by (simp add: step_def analysis_effect_def handleActivity_def)

lemma step_TimerTick:
  "timerRef s \<Longrightarrow> step s TimerTick = s\<lparr> elapsedTime := elapsedTime s + 1 \<rparr>"
  by (simp add: step_def timer_tick_def analysis_effect_def handleActivity_def)

lemma run_TimerTicks:
  "timerRef s \<Longrightarrow>
     run s (replicate n TimerTick) = s\<lparr> elapsedTime := elapsedTime s + int n \<rparr>"
proof (induction n arbitrary: s)
  case 0
  then show ?case by simp
next
  case (Suc n)
  have "run s (replicate (Suc n) TimerTick) =
        run (s\<lparr> elapsedTime := elapsedTime s + 1 \<rparr>) (replicate n TimerTick)"
    using Suc.prems by (simp add: run_Cons step_TimerTick)
  also have "\<dots> = s\<lparr> elapsedTime := elapsedTime s + 1 + int n \<rparr>"
    using Suc.IH [of "s\<lparr> elapsedTime := elapsedTime s + 1 \<rparr>"] Suc.prems by simp
  finally show ?case by (simp add: add.assoc add.commute)
qed

lemma recorder_active_elapsedTime [simp]:
  "recorder_active (s\<lparr> elapsedTime := t \<rparr>) = recorder_active s"
  by (simp add: recorder_active_def)

lemma paused_for_eq:
  assumes "status s = RECORDING" "timerRef s"
  shows "paused_for n tc now s =
           (handleActivity tc (pauseMonitoring now s))\<lparr> elapsedTime := elapsedTime s + int n \<rparr>"
  using assms by (simp add: paused_for_def step_Pause_recording run_TimerTicks)

lemma startMonitoring_success:
  assumes "start_succeeds env"
  shows "timerRef (startMonitoring env s)" "status (startMonitoring env s) = RECORDING"
proof -
  from assms obtain u c where e: "getUserMedia env = Resolved u" "compositorCanvas env = Some c"
    "new_MediaRecorder_throws env = None" "recorder_start_throws env = None"
    by (auto simp: start_succeeds_def split: promise.splits)
  show "timerRef (startMonitoring env s)"
    by (simp add: startMonitoring_def start_recording_def startAnalysisLoop_def e Let_def)
  show "status (startMonitoring env s) = RECORDING"
    by (simp add: startMonitoring_def start_recording_def startAnalysisLoop_def e Let_def)
qed

lemma start_recording_failure:
  assumes "compositorCanvas env = None \<or> new_MediaRecorder_throws env \<noteq> None \<or>
           recorder_start_throws env \<noteq> None"
  shows "timerRef (start_recording env s0 s) = timerRef s"
    "status (start_recording env s0 s) = status s"
  using assms by (auto simp: start_recording_def Let_def split: option.splits)

lemma startMonitoring_failure:
  assumes "\<not> start_succeeds env"
  shows "timerRef (startMonitoring env s) = timerRef s"
    "status (startMonitoring env s) = status s"
proof -
  show "timerRef (startMonitoring env s) = timerRef s"
  proof (cases "getUserMedia env")
    case (Rejected e)
    then show ?thesis by (simp add: startMonitoring_def Let_def)
  next
    case (Resolved u)
    with assms have "compositorCanvas env = None \<or> new_MediaRecorder_throws env \<noteq> None \<or>
           recorder_start_throws env \<noteq> None"
      by (auto simp: start_succeeds_def)
    then show ?thesis
      using Resolved by (simp add: startMonitoring_def Let_def start_recording_failure)
  qed
  show "status (startMonitoring env s) = status s"
  proof (cases "getUserMedia env")
    case (Rejected e)
    then show ?thesis by (simp add: startMonitoring_def Let_def)
  next
    case (Resolved u)
    with assms have "compositorCanvas env = None \<or> new_MediaRecorder_throws env \<noteq> None \<or>
           recorder_start_throws env \<noteq> None"
      by (auto simp: start_succeeds_def)
    then show ?thesis
      using Resolved by (simp add: startMonitoring_def Let_def start_recording_failure)
  qed
qed

lemma stopMonitoringWith_timerRef: "\<not> timerRef (stopMonitoringWith c s)"
  by (simp add: stopMonitoringWith_def stop_fallback_def emit_def Let_def split: option.splits)

lemma unmount_timerRef: "\<not> timerRef (unmount now s)"
  by (simp add: unmount_def stopLoops_def Let_def)

lemma checkSavedSession_timerRef [simp]:
  "timerRef (checkSavedSession now s) = timerRef s"
  by (simp add: checkSavedSession_def split: option.splits)

lemma mount_timerRef: "\<not> timerRef (mount user uuid now s)"
  by (simp add: mount_def initial_monitor_def)

lemma reload_timerRef: "\<not> timerRef (reload uuid now s)"
  by (simp add: reload_def initial_monitor_def)

lemma onstop_handler_timerRef [simp]:
  "timerRef (onstop_handler c db s) = timerRef s"
  by (simp add: onstop_handler_def emit_def Let_def split: promise.splits)

lemma recorder_stop_task_timerRef [simp]:
  "timerRef (recorder_stop_task d db s) = timerRef s"
  by (simp add: recorder_stop_task_def ondataavailable_def Let_def split: option.splits)

lemma handleResumeSession_timerRef [simp]:
  "timerRef (handleResumeSession now loaded s) = timerRef s"
  by (simp add: handleResumeSession_def Let_def split: option.splits promise.splits)

lemma handleDiscardSession_timerRef [simp]:
  "timerRef (handleDiscardSession s) = timerRef s"
  by (simp add: handleDiscardSession_def emit_def)

text \<open>No event other than a stop or a reload clears the ticker.\<close>

lemma step_keeps_ticker:
  assumes tm: "timerRef s" and ev: "\<not> ends_ticker ev"
  shows "timerRef (step s ev)"
proof (cases ev)
  case (Start tc env)
  then show ?thesis
    using tm by (simp add: step_def startMonitoring_keeps)
next
  case (Resume tc env)
  then show ?thesis
    using tm by (simp add: step_def resumeMonitoring_keeps)
next
  case (AnalysisTick env)
  then show ?thesis
    using tm analysis_tick_fields [of env s] by (simp add: step_def)
qed (use tm ev in \<open>simp_all add: step_def toggleCamera_def timer_tick_def ondataavailable_def\<close>)

text \<open>
  C1 (as amended). Pause does not clear the 1-second ticker. The ticker is registered
  by a successful \<open>start()\<close> (a failed one leaves it as it was); it is taken away by
  \<open>stop()\<close> (the End button or the end of the screen share), by the unmount of the
  component and by a reload or a new mount, and no other event clears it. So while the
  state is \<open>PAUSED\<close> with the ticker registered, every tick still adds one second to the
  elapsed time, and when the End button then completes the session (the recorder is
  recording or paused, the save of the video does not reject), the duration it reports
  counts the seconds ticked while paused along with those ticked while recording.
\<close>

theorem C1_ticker_runs_while_paused:
  "(start_succeeds env \<longrightarrow>
      timerRef (startMonitoring env q) \<and> status (startMonitoring env q) = RECORDING) \<and>
   (\<not> start_succeeds env \<longrightarrow>
      timerRef (startMonitoring env q) = timerRef q \<and>
      status (startMonitoring env q) = status q) \<and>
   \<not> timerRef (stopMonitoringWith c q) \<and>
   \<not> timerRef (unmount now' q) \<and>
   \<not> timerRef (reload uuid now' q) \<and>
   \<not> timerRef (mount user uuid now' q) \<and>
   (timerRef p \<and> \<not> ends_ticker ev \<longrightarrow> timerRef (step p ev)) \<and>
   (status s = RECORDING \<and> timerRef s \<longrightarrow>
      status (step s (Pause tc now)) = PAUSED \<and>
      timerRef (step s (Pause tc now)) \<and>
      status (paused_for n tc now s) = PAUSED \<and>
      timerRef (paused_for n tc now s) \<and>
      elapsedTime (paused_for n tc now s) = elapsedTime s + int n \<and>
      (recorder_active s \<and> video_save_resolves db (paused_for n tc now s) d \<longrightarrow>
         completions (run (paused_for n tc now s) [End te, RecorderStopped d db]) =
           completions s @
           [SessionComplete (activeSessionId s) (elapsedTime s + int n) (logs s)
              (final_video s d)]))"
proof -
  let ?p = "paused_for n tc now s"
  have paused: "status (step s (Pause tc now)) = PAUSED \<and>
      timerRef (step s (Pause tc now)) \<and>
      status ?p = PAUSED \<and> timerRef ?p \<and>
      elapsedTime ?p = elapsedTime s + int n \<and>
      (recorder_active s \<and> video_save_resolves db ?p d \<longrightarrow>
         completions (run ?p [End te, RecorderStopped d db]) =
           completions s @
           [SessionComplete (activeSessionId s) (elapsedTime s + int n) (logs s)
              (final_video s d)])"
    if h: "status s = RECORDING \<and> timerRef s"
  proof -
    from h have rec: "status s = RECORDING" and tm: "timerRef s"
      by simp_all
    have p: "?p = (handleActivity tc (pauseMonitoring now s))
                    \<lparr> elapsedTime := elapsedTime s + int n \<rparr>"
      using rec tm by (rule paused_for_eq)
    have f: "status ?p = PAUSED" "elapsedTime ?p = elapsedTime s + int n" "logs ?p = logs s"
      "activeSessionId ?p = activeSessionId s" "chunksRef ?p = chunksRef s" "timerRef ?p"
      using tm by (simp_all add: p)
    have ra: "recorder_active ?p = recorder_active s"
      by (simp add: p)
    have c: "completions ?p = completions s"
      by (simp add: p completions_def pauseMonitoring_effects)
    have fv: "final_video ?p d = final_video s d"
      by (simp add: final_video_def final_chunks_def chunks_after_last_data f)
    have compl: "completions (run ?p [End te, RecorderStopped d db]) =
        completions s @
        [SessionComplete (activeSessionId s) (elapsedTime s + int n) (logs s) (final_video s d)]"
      if h2: "recorder_active s \<and> video_save_resolves db ?p d"
    proof -
      have "status ?p \<noteq> IDLE" by (simp add: f)
      moreover have "recorder_active ?p" using h2 ra by simp
      moreover have "video_save_resolves db ?p d" using h2 by simp
      ultimately show ?thesis
        using completions_completion [where q = ?p and db = db and d = d and tc = te]
        by (simp add: f c fv)
    qed
    have "status (step s (Pause tc now)) = PAUSED" "timerRef (step s (Pause tc now))"
      using rec tm by (simp_all add: step_Pause_recording)
    then show ?thesis
      using f compl by blast
  qed
  show ?thesis
    using startMonitoring_success [of env q] startMonitoring_failure [of env q]
      stopMonitoringWith_timerRef [of c q] unmount_timerRef [of now' q]
      mount_timerRef [of user uuid now' q] reload_timerRef [of uuid now' q]
      step_keeps_ticker [of p ev] paused
    by blast
qed

lemma recording_state_facts:
  "timerRef recording_state" "recorder_active recording_state"
  "elapsedTime recording_state = 0" "logs recording_state = []"
  "activeSessionId recording_state = ''id-at-start''" "chunksRef recording_state = []"
  "completions recording_state = []" "effects recording_state = []"
  by (simp_all add: recording_state_eq recorder_active_def completions_def
      mounted_def initial_monitor_def)

theorem C1_ticker_runs_while_paused_witness:
  "start_succeeds (start_ok ''id-at-start'' 10) \<and>
   timerRef (startMonitoring (start_ok ''id-at-start'' 10) mounted) \<and>
   status (startMonitoring (start_ok ''id-at-start'' 10) mounted) = RECORDING \<and>
   \<not> start_succeeds (start_recorder_unsupported ''id-at-start'' 10) \<and>
   \<not> timerRef (startMonitoring (start_recorder_unsupported ''id-at-start'' 10) mounted) \<and>
   status (startMonitoring (start_recorder_unsupported ''id-at-start'' 10) mounted) = IDLE \<and>
   status recording_state = RECORDING \<and> timerRef recording_state \<and>
   \<not> ends_ticker (Checkpoint 10000) \<and>
   timerRef (step recording_state (Checkpoint 10000)) \<and>
   \<not> timerRef (unmount 20000 recording_state) \<and>
   recorder_active recording_state \<and>
   video_save_resolves store_ok (paused_for 30 20000 20000 recording_state) [9] \<and>
   status (paused_for 30 20000 20000 recording_state) = PAUSED \<and>
   timerRef (paused_for 30 20000 20000 recording_state) \<and>
   elapsedTime (paused_for 30 20000 20000 recording_state) = 30 \<and>
   completions (run (paused_for 30 20000 20000 recording_state)
                  [End 60000, RecorderStopped [9] store_ok]) =
     [SessionComplete ''id-at-start'' 30 [] (Some [9])]"
proof -
  have r: "status recording_state = RECORDING" and t: "timerRef recording_state"
    by (simp_all add: recording_state_status recording_state_facts)
  have v: "video_save_resolves store_ok (paused_for 30 20000 20000 recording_state) [9]"
    by (simp add: video_save_resolves_def)
  have fv: "final_video recording_state [9] = Some [9]"
    by (simp add: final_video_def final_chunks_def ondataavailable_def recording_state_facts
        new_Blob_def)
  have ok: "start_succeeds (start_ok ''id-at-start'' 10)"
    "\<not> start_succeeds (start_recorder_unsupported ''id-at-start'' 10)"
    by (simp_all add: start_succeeds_def start_ok_def start_recorder_unsupported_def)
  have m: "\<not> timerRef mounted" "status mounted = IDLE"
    by (simp_all add: mounted_def initial_monitor_def)
  show ?thesis
    using C1_ticker_runs_while_paused
        [where env = "start_ok ''id-at-start'' 10" and q = mounted and p = recording_state
           and ev = "Checkpoint 10000" and s = recording_state and tc = 20000
           and now = 20000 and n = 30 and db = store_ok and d = "[9]" and te = 60000
           and now' = 20000]
      C1_ticker_runs_while_paused
        [where env = "start_recorder_unsupported ''id-at-start'' 10" and q = mounted
           and p = recording_state and ev = "Checkpoint 10000" and s = recording_state
           and now' = 20000]
      C1_ticker_runs_while_paused [where q = recording_state and now' = 20000]
      v ok m
    by (simp add: fv recording_state_facts r)
qed

text \<open>
  C1 as claimed fails: after a start and a Pause at once, two ticks of the timer raise
  the elapsed time from 0 to 2 while the state is \<open>PAUSED\<close> throughout, and the duration
  reported at completion is 2, all of it time spent paused.
\<close>

theorem C1_claim_counterexample:
  "status (step recording_state (Pause 20000 20000)) = PAUSED \<and>
   elapsedTime (step recording_state (Pause 20000 20000)) = 0 \<and>
   status paused_ticking = PAUSED \<and>
   elapsedTime paused_ticking = 2 \<and>
   completions (run paused_ticking [End 40000, RecorderStopped [9] store_ok]) =
     [SessionComplete ''id-at-start'' 2 [] (Some [9])]"
proof -
  have r: "status recording_state = RECORDING" and t: "timerRef recording_state"
    by (simp_all add: recording_state_status recording_state_facts)
  have pt: "paused_ticking = paused_for 2 20000 20000 recording_state"
    by (simp add: paused_ticking_def paused_for_def numeral_2_eq_2)
  have p: "paused_ticking =
      (handleActivity 20000 (pauseMonitoring 20000 recording_state))\<lparr> elapsedTime := 2 \<rparr>"
    using paused_for_eq [OF r t, where n = 2 and tc = 20000 and now = 20000]
    by (simp add: pt recording_state_facts)
  have f: "status paused_ticking = PAUSED" "elapsedTime paused_ticking = 2"
    "logs paused_ticking = []" "activeSessionId paused_ticking = ''id-at-start''"
    "chunksRef paused_ticking = []" "recorder_active paused_ticking"
    "completions paused_ticking = []"
    by (simp_all add: p recording_state_facts completions_def pauseMonitoring_effects)
  have fv: "final_video paused_ticking [9] = Some [9]"
    by (simp add: final_video_def final_chunks_def ondataavailable_def f new_Blob_def)
  have v: "video_save_resolves store_ok paused_ticking [9]"
    by (simp add: video_save_resolves_def)
  have st: "status paused_ticking \<noteq> IDLE" by (simp add: f)
  have c: "completions (run paused_ticking [End 40000, RecorderStopped [9] store_ok]) =
     [SessionComplete ''id-at-start'' 2 [] (Some [9])]"
    using completions_completion [OF st f(6) v, where tc = 40000] by (simp add: f fv)
  have "status (step recording_state (Pause 20000 20000)) = PAUSED"
    "elapsedTime (step recording_state (Pause 20000 20000)) = 0"
    using r by (simp_all add: step_Pause_recording recording_state_facts)
  then show ?thesis
    using f c by simp
qed

subsection \<open>The session id\<close>

lemma adds_session_effects_completions:
  "adds_session_effects s s' \<Longrightarrow> completions s' = completions s"
  by (auto simp: adds_session_effects_iff completions_def)

lemma handleResumeSession_id:
  "activeSessionId (handleResumeSession now loaded s) = activeSessionId s"
  by (simp add: handleResumeSession_def Let_def split: option.splits promise.splits)

lemma reload_id: "activeSessionId (step s (Reload uuid now)) = uuid"
  by (simp add: step_def reload_def checkSavedSession_def initial_monitor_def
      split: option.splits)

lemma mount_id: "activeSessionId (mount user uuid now s) = uuid"
  by (simp add: mount_def checkSavedSession_def initial_monitor_def split: option.splits)

lemma step_ResumeSession_id:
  "activeSessionId (step s (ResumeSession tc now loaded)) = activeSessionId s"
  by (simp add: step_def handleResumeSession_id)

text \<open>
  C2 (as amended). A session id is minted whenever the component mounts (on a page
  load or reload, and on a new mount after a logout) and again by every start from
  \<open>IDLE\<close>; the recovery resume and every event in the course of a session (pause,
  resume, also when resume falls back to a new start, the camera toggle, user activity,
  the periodic tasks and the recorder's data) leave it unchanged. So while the
  component stays mounted, from a start to the End button, every write of logs to the
  store (by Pause and by the 10-second checkpoint) carries the session id, and End
  (with a recorder that is recording or paused and a save of the video that does not
  reject) hands the video and the final logs to the store and calls
  \<open>onSessionComplete\<close> under that same id.
\<close>

theorem C2_session_id_stable_while_mounted:
  "(status s0 = IDLE \<longrightarrow> activeSessionId (step s0 (Start tc env)) = randomUUID env) \<and>
   activeSessionId (step s0 (Reload uuid now)) = uuid \<and>
   activeSessionId (mount user uuid now s0) = uuid \<and>
   activeSessionId (step s0 (ResumeSession tr now' loaded)) = activeSessionId s0 \<and>
   ((\<forall>ev \<in> set evs. within_session ev) \<and> status s \<noteq> IDLE \<longrightarrow>
      activeSessionId (run s evs) = activeSessionId s \<and>
      adds_session_effects s (run s evs) \<and>
      (recorder_active (run s evs) \<and> video_save_resolves db (run s evs) d \<longrightarrow>
         effects (run (run s evs) [End te, RecorderStopped d db]) =
           effects (run s evs) @
           (if final_chunks (run s evs) d \<noteq> []
            then [SaveVideoToDB (activeSessionId s) (new_Blob (final_chunks (run s evs) d))]
            else []) @
           [ClearRecoveryChunks, RemoveSessionMeta,
            SessionComplete (activeSessionId s) (elapsedTime (run s evs)) (logs (run s evs))
              (final_video (run s evs) d)] @
           (if logs (run s evs) \<noteq> []
            then [SaveLogsToDB (activeSessionId s) (logs (run s evs))] else []) \<and>
         completions (run (run s evs) [End te, RecorderStopped d db]) =
           completions s @
           [SessionComplete (activeSessionId s) (elapsedTime (run s evs)) (logs (run s evs))
              (final_video (run s evs) d)]))"
proof -
  have start: "status s0 = IDLE \<longrightarrow> activeSessionId (step s0 (Start tc env)) = randomUUID env"
    by (simp add: step_def startMonitoring_keeps)
  have session: "activeSessionId (run s evs) = activeSessionId s \<and>
      adds_session_effects s (run s evs) \<and>
      (recorder_active (run s evs) \<and> video_save_resolves db (run s evs) d \<longrightarrow>
         effects (run (run s evs) [End te, RecorderStopped d db]) =
           effects (run s evs) @
           (if final_chunks (run s evs) d \<noteq> []
            then [SaveVideoToDB (activeSessionId s) (new_Blob (final_chunks (run s evs) d))]
            else []) @
           [ClearRecoveryChunks, RemoveSessionMeta,
            SessionComplete (activeSessionId s) (elapsedTime (run s evs)) (logs (run s evs))
              (final_video (run s evs) d)] @
           (if logs (run s evs) \<noteq> []
            then [SaveLogsToDB (activeSessionId s) (logs (run s evs))] else []) \<and>
         completions (run (run s evs) [End te, RecorderStopped d db]) =
           completions s @
           [SessionComplete (activeSessionId s) (elapsedTime (run s evs)) (logs (run s evs))
              (final_video (run s evs) d)])"
    if h: "(\<forall>ev \<in> set evs. within_session ev) \<and> status s \<noteq> IDLE"
  proof -
    let ?q = "run s evs"
    from h have inv: "status ?q \<noteq> IDLE" "activeSessionId ?q = activeSessionId s"
      "adds_session_effects s ?q"
      using run_within_session [of evs s] by simp_all
    have c: "completions ?q = completions s"
      using inv(3) by (rule adds_session_effects_completions)
    have fin: "effects (run ?q [End te, RecorderStopped d db]) =
           effects ?q @
           (if final_chunks ?q d \<noteq> []
            then [SaveVideoToDB (activeSessionId s) (new_Blob (final_chunks ?q d))]
            else []) @
           [ClearRecoveryChunks, RemoveSessionMeta,
            SessionComplete (activeSessionId s) (elapsedTime ?q) (logs ?q) (final_video ?q d)] @
           (if logs ?q \<noteq> [] then [SaveLogsToDB (activeSessionId s) (logs ?q)] else []) \<and>
         completions (run ?q [End te, RecorderStopped d db]) =
           completions s @
           [SessionComplete (activeSessionId s) (elapsedTime ?q) (logs ?q) (final_video ?q d)]"
      if a: "recorder_active ?q \<and> video_save_resolves db ?q d"
      using a effects_completion [OF inv(1), where d = d and db = db and tc = te]
        completions_completion [OF inv(1), where d = d and db = db and tc = te]
      by (simp add: inv(2) c)
    from inv(2,3) fin show ?thesis by blast
  qed
  from start session show ?thesis
    by (simp add: reload_id mount_id step_ResumeSession_id)
qed

lemma paused_state_run:
  "run recording_state [AnalysisTick (sample_no_key 15000), Pause 20000 20000] = paused_state"
  by (simp add: run_def paused_state_def sampled_def)

lemma paused_state_facts:
  "status paused_state = PAUSED" "recorder_active paused_state"
  "effects paused_state =
     [SetSessionMeta sample_meta, SaveLogsToDB ''id-at-start'' [sample_log]]"
  "chunksRef paused_state = []" "logs paused_state = [sample_log]"
  "elapsedTime paused_state = 0" "activeSessionId paused_state = ''id-at-start''"
  by (simp_all add: paused_state_eq sampled_eq recording_state_eq recorder_active_def
      mounted_def initial_monitor_def)

theorem C2_session_id_stable_while_mounted_witness:
  "status mounted = IDLE \<and>
   activeSessionId (step mounted (Start 10 (start_ok ''id-at-start'' 10))) = ''id-at-start'' \<and>
   activeSessionId (mount ''employee1'' ''id-at-login'' 50000 mounted) = ''id-at-login'' \<and>
   within_session (AnalysisTick (sample_no_key 15000)) \<and> within_session (Pause 20000 20000) \<and>
   status recording_state \<noteq> IDLE \<and>
   recorder_active paused_state \<and> video_save_resolves store_ok paused_state [9] \<and>
   activeSessionId paused_state = ''id-at-start'' \<and>
   adds_session_effects recording_state paused_state \<and>
   effects paused_state =
     [SetSessionMeta sample_meta, SaveLogsToDB ''id-at-start'' [sample_log]] \<and>
   completions (run paused_state [End 40000, RecorderStopped [9] store_ok]) =
     [SessionComplete ''id-at-start'' 0 [sample_log] (Some [9])]"
proof -
  have m: "status mounted = IDLE"
    by (simp add: mounted_def initial_monitor_def)
  have u: "randomUUID (start_ok ''id-at-start'' 10) = ''id-at-start''"
    by (simp add: start_ok_def)
  have w: "\<forall>ev \<in> set [AnalysisTick (sample_no_key 15000), Pause 20000 20000]. within_session ev"
    by simp
  have r: "status recording_state \<noteq> IDLE"
    by (simp add: recording_state_status)
  have v: "video_save_resolves store_ok paused_state [9]"
    by (simp add: video_save_resolves_def)
  have fv: "final_video paused_state [9] = Some [9]"
    by (simp add: final_video_def final_chunks_def ondataavailable_def paused_state_facts
        new_Blob_def)
  show ?thesis
    using C2_session_id_stable_while_mounted
      [where ?s0.0 = mounted and env = "start_ok ''id-at-start'' 10" and tc = 10
         and user = "''employee1''" and uuid = "''id-at-login''" and now = 50000
         and evs = "[AnalysisTick (sample_no_key 15000), Pause 20000 20000]"
         and s = recording_state and db = store_ok and d = "[9]" and te = 40000]
      m u w r v
    by (simp add: paused_state_run paused_state_facts recording_state_facts fv)
qed

text \<open>
  C2 as claimed fails across a reload: the logs of the session were written to the store
  under the id minted at start; the reloaded page mints a new id at mount, the recovery
  resume and the restart keep that new id, and \<open>onSessionComplete\<close> receives it. (The
  recovery chunks are kept under the fixed key \<open>active_session\<close>, under no session id.)
\<close>

theorem C2_claim_counterexample:
  "activeSessionId mounted = ''id-at-mount'' \<and>
   activeSessionId recording_state = ''id-at-start'' \<and>
   effects paused_state =
     [SetSessionMeta sample_meta, SaveLogsToDB ''id-at-start'' [sample_log]] \<and>
   activeSessionId recovered = ''id-after-reload'' \<and>
   status resumed = RECORDING \<and>
   activeSessionId resumed = ''id-after-reload'' \<and>
   completions (run resumed [End 40000, RecorderStopped [9] store_ok]) =
     [SessionComplete ''id-after-reload'' 0 [stripThumbnail sample_log] (Some [9])] \<and>
   ''id-at-start'' \<noteq> ''id-after-reload''"
proof -
  have f: "status resumed = RECORDING" "recorder_active resumed"
    "activeSessionId resumed = ''id-after-reload''" "chunksRef resumed = []"
    "logs resumed = [stripThumbnail sample_log]" "elapsedTime resumed = 0"
    "completions resumed = []"
    by (simp_all add: resumed_eq recovered_eq recorder_active_def completions_def
        initial_monitor_def)
  have st: "status resumed \<noteq> IDLE" by (simp add: f)
  have v: "video_save_resolves store_ok resumed [9]"
    by (simp add: video_save_resolves_def)
  have fv: "final_video resumed [9] = Some [9]"
    by (simp add: final_video_def final_chunks_def ondataavailable_def f new_Blob_def)
  have c: "completions (run resumed [End 40000, RecorderStopped [9] store_ok]) =
     [SessionComplete ''id-after-reload'' 0 [stripThumbnail sample_log] (Some [9])]"
    using completions_completion [OF st f(2) v, where tc = 40000] by (simp add: f fv)
  have "activeSessionId mounted = ''id-at-mount''"
    by (simp add: mounted_def initial_monitor_def)
  then show ?thesis
    using c by (simp add: f recording_state_facts paused_state_facts recovered_facts)
qed

subsection \<open>The order of the logs\<close>

lemma sampled_twice_eq:
  "sampled_twice =
     recording_state\<lparr> logs := [sample_log_2, sample_log],
                      currentAnalysis := fallback_result \<rparr>"
proof -
  have "sampled_twice = step sampled (AnalysisTick (sample_no_key 30000))"
    by (simp add: sampled_twice_def run_def sampled_def)
  then show ?thesis
    by (simp add: sampled_eq recording_state_eq step_def analysis_tick_def record_result_def
      read_property_def sample_audio_def
      sample_no_key_def analyzeSessionContext_def analyze_try_def getClient_def
      classifier_no_key_def analysis_log_def add_log_def fallback_result_def sample_log_def
      sample_log_2_def analysis_effect_def handleActivity_def mounted_def initial_monitor_def)
qed

lemma sampled_twice_facts:
  "status sampled_twice = RECORDING" "recorder_active sampled_twice"
  "effects sampled_twice = []" "chunksRef sampled_twice = []"
  "logs sampled_twice = [sample_log_2, sample_log]" "elapsedTime sampled_twice = 0"
  "activeSessionId sampled_twice = ''id-at-start''" "completions sampled_twice = []"
  by (simp_all add: sampled_twice_eq recording_state_eq recorder_active_def completions_def
      mounted_def initial_monitor_def)

text \<open>
  C3 (as amended). Each new log is put in front of the list, by the sampler and by the
  idle detector alike, and no event in the course of a session removes or reorders
  logs. So when the readings of the clock do not decrease, the list is in reverse
  chronological order, newest first (read from its end it is non-decreasing in
  timestamp), and End hands exactly that list, not re-sorted, to \<open>onSessionComplete\<close>.
\<close>

theorem C3_logs_newest_first:
  "logs (add_log l s) = l # logs s \<and>
   ((\<forall>ev \<in> set evs. within_session ev) \<and>
    sorted (map timestamp (rev (logs s)) @ List.map_filter event_timestamp evs) \<longrightarrow>
      sorted (map timestamp (rev (logs (run s evs)))) \<and>
      (status (run s evs) \<noteq> IDLE \<and> recorder_active (run s evs) \<and>
       video_save_resolves db (run s evs) d \<longrightarrow>
         completions (run (run s evs) [End tc, RecorderStopped d db]) =
           completions (run s evs) @
           [SessionComplete (activeSessionId (run s evs)) (elapsedTime (run s evs))
              (logs (run s evs)) (final_video (run s evs) d)]))"
proof -
  have order: "sorted (map timestamp (rev (logs (run s evs))))"
    if "(\<forall>ev \<in> set evs. within_session ev) \<and>
        sorted (map timestamp (rev (logs s)) @ List.map_filter event_timestamp evs)"
    using that run_logs_chronological [of evs s] by simp
  have handed: "completions (run (run s evs) [End tc, RecorderStopped d db]) =
           completions (run s evs) @
           [SessionComplete (activeSessionId (run s evs)) (elapsedTime (run s evs))
              (logs (run s evs)) (final_video (run s evs) d)]"
    if "status (run s evs) \<noteq> IDLE \<and> recorder_active (run s evs) \<and>
        video_save_resolves db (run s evs) d"
    using that completions_completion [of "run s evs" db d] by simp
  have "logs (add_log l s) = l # logs s"
    by (simp add: add_log_def)
  with order handed show ?thesis by blast
qed

theorem C3_logs_newest_first_witness:
  "within_session (AnalysisTick (sample_no_key 15000)) \<and>
   within_session (AnalysisTick (sample_no_key 30000)) \<and>
   sorted (map timestamp (rev (logs recording_state)) @ [15000, 30000]) \<and>
   status sampled_twice \<noteq> IDLE \<and> recorder_active sampled_twice \<and>
   video_save_resolves store_ok sampled_twice [9] \<and>
   map timestamp (logs sampled_twice) = [30000, 15000] \<and>
   sorted (map timestamp (rev (logs sampled_twice))) \<and>
   completions (run sampled_twice [End 40000, RecorderStopped [9] store_ok]) =
     [SessionComplete ''id-at-start'' 0 [sample_log_2, sample_log] (Some [9])]"
proof -
  have w: "\<forall>ev \<in> set [AnalysisTick (sample_no_key 15000), AnalysisTick (sample_no_key 30000)].
             within_session ev"
    by simp
  have sn: "sample_ts_now (sample_no_key 15000) = 15000"
    "sample_ts_now (sample_no_key 30000) = 30000"
    by (simp_all add: sample_no_key_def)
  have so: "sorted (map timestamp (rev (logs recording_state)) @ [15000, 30000 :: int])"
    by (simp add: recording_state_facts)
  have r: "run recording_state
             [AnalysisTick (sample_no_key 15000), AnalysisTick (sample_no_key 30000)]
           = sampled_twice"
    by (simp add: sampled_twice_def)
  have v: "video_save_resolves store_ok sampled_twice [9]"
    by (simp add: video_save_resolves_def)
  have fv: "final_video sampled_twice [9] = Some [9]"
    by (simp add: final_video_def final_chunks_def ondataavailable_def sampled_twice_facts
        new_Blob_def)
  have tm: "map timestamp (logs sampled_twice) = [30000, 15000]"
    by (simp add: sampled_twice_facts sample_log_2_def sample_log_def)
  show ?thesis
    using C3_logs_newest_first
      [of sample_log recording_state
          "[AnalysisTick (sample_no_key 15000), AnalysisTick (sample_no_key 30000)]"
          store_ok "[9]"] w so v tm
    by (simp add: sn r fv sampled_twice_facts)
qed

text \<open>
  C3 as claimed fails: two sampling runs at 15 s and at 30 s leave the list with the log
  of 30 s first, so the list, which is handed to \<open>onSessionComplete\<close> as it is, is not
  non-decreasing in timestamp.
\<close>

theorem C3_claim_counterexample:
  "map timestamp (logs sampled_twice) = [30000, 15000] \<and>
   \<not> sorted (map timestamp (logs sampled_twice)) \<and>
   completions (run sampled_twice [End 40000, RecorderStopped [9] store_ok]) =
     [SessionComplete ''id-at-start'' 0 (logs sampled_twice) (Some [9])]"
proof -
  have tm: "map timestamp (logs sampled_twice) = [30000, 15000]"
    by (simp add: sampled_twice_facts sample_log_2_def sample_log_def)
  have st: "status sampled_twice \<noteq> IDLE"
    by (simp add: sampled_twice_facts)
  have v: "video_save_resolves store_ok sampled_twice [9]"
    by (simp add: video_save_resolves_def)
  have fv: "final_video sampled_twice [9] = Some [9]"
    by (simp add: final_video_def final_chunks_def ondataavailable_def sampled_twice_facts
        new_Blob_def)
  have c: "completions (run sampled_twice [End 40000, RecorderStopped [9] store_ok]) =
     [SessionComplete ''id-at-start'' 0 (logs sampled_twice) (Some [9])]"
    using completions_completion [OF st sampled_twice_facts(2) v]
    by (simp add: fv sampled_twice_facts)
  show ?thesis
    using c by (simp add: tm)
qed

subsection \<open>The end of the screen share\<close>

text \<open>
  The handler put on the screen track calls the \<open>stopMonitoring\<close> of the render in
  which Start was pressed. When the user ends the screen share after one sampling run,
  \<open>onSessionComplete\<close> therefore receives the id minted at mount, no elapsed time and
  no logs, although the session ran under the id minted at start and has a log.
\<close>

lemma screen_share_end_uses_stale_values:
  "activeSessionId sampled = ''id-at-start'' \<and> logs sampled = [sample_log] \<and>
   completions (run sampled [ScreenShareEnded, RecorderStopped [9] store_ok]) =
     [SessionComplete ''id-at-mount'' 0 [] (Some [9])]"
  by (simp add: run_def step_def sampled_eq recording_state_eq stopMonitoringWith_def
      stopLoops_def stop_streams_def recorder_stop_task_def ondataavailable_def
      onstop_handler_def emit_def new_Blob_def completions_def analysis_effect_def handleActivity_def
      mounted_def initial_monitor_def Let_def)

subsection \<open>The unmount of the component\<close>

text \<open>
  No handler changes \<open>firstRenderSessionId\<close>: until a reload it is the id minted at
  mount, whatever \<open>activeSessionId\<close> has become.
\<close>

lemma start_recording_first_id [simp]:
  "firstRenderSessionId (start_recording env s0 s) = firstRenderSessionId s"
  by (simp add: start_recording_def start_catch_def emit_def startAnalysisLoop_def Let_def
      split: option.splits)

lemma startMonitoring_first_id [simp]:
  "firstRenderSessionId (startMonitoring env s) = firstRenderSessionId s"
  by (simp add: startMonitoring_def start_catch_def emit_def acquire_screen_def
      prepare_processed_def init_segmentation_def Let_def
      split: promise.splits option.splits segmentation_init.splits)

lemma saveSessionToStorage_first_id [simp]:
  "firstRenderSessionId (saveSessionToStorage i now t ls cs s) = firstRenderSessionId s"
  by (simp add: saveSessionToStorage_def Let_def emit_def)

lemma stopMonitoringWith_first_id [simp]:
  "firstRenderSessionId (stopMonitoringWith c s) = firstRenderSessionId s"
  by (simp add: stopMonitoringWith_def stop_fallback_def stopLoops_def stop_streams_def
      emit_def Let_def split: option.splits)

lemma recorder_stop_task_first_id [simp]:
  "firstRenderSessionId (recorder_stop_task d db s) = firstRenderSessionId s"
  by (simp add: recorder_stop_task_def onstop_handler_def ondataavailable_def emit_def Let_def
      split: option.splits promise.splits)

lemma analysis_tick_first_id [simp]:
  "firstRenderSessionId (snd (analysis_tick env s)) = firstRenderSessionId s"
  by (simp add: analysis_tick_def record_result_def add_log_def Let_def
      split: sum.splits promise.splits)

lemma handle_first_id:
  "\<not> is_Reload ev \<Longrightarrow> firstRenderSessionId (handle ev s) = firstRenderSessionId s"
  by (cases ev)
    (simp_all add: handleActivity_def pauseMonitoring_def resumeMonitoring_def
       startAnalysisLoop_def stopMonitoring_def toggleCamera_def timer_tick_def checkIdle_def
       add_log_def checkpoint_def ondataavailable_def handleResumeSession_def
       handleDiscardSession_def emit_def Let_def split: option.splits promise.splits)

lemma step_first_id:
  "\<not> is_Reload ev \<Longrightarrow> firstRenderSessionId (step s ev) = firstRenderSessionId s"
  by (simp add: step_def handle_first_id analysis_effect_def startAnalysisLoop_def)

lemma run_first_id:
  "\<forall>ev \<in> set evs. \<not> is_Reload ev \<Longrightarrow>
     firstRenderSessionId (run s evs) = firstRenderSessionId s"
  by (induction evs arbitrary: s) (simp_all add: run_def step_first_id)

text \<open>
  What the cleanup writes: the recovery snapshot, and the logs under the id of the first
  render.
\<close>

lemma unmount_effects:
  "status s \<noteq> IDLE \<Longrightarrow>
     effects (unmount now s) =
       effects s @
       [SetSessionMeta \<lparr> meta_elapsedTime = elapsedTime s,
                         meta_logs = map stripThumbnail (logs s),
                         meta_timestamp = now, wasRecording = True \<rparr>] @
       (if chunksRef s \<noteq> [] then [SaveRecoveryChunks (chunksRef s)] else []) @
       (if logs s \<noteq> [] then [SaveLogsToDB (firstRenderSessionId s) (logs s)] else [])"
  by (simp add: unmount_def stopLoops_def saveSessionToStorage_effects Let_def)

lemma render_throws_analysis_effect [simp]:
  "render_throws (analysis_effect a b) = render_throws b"
  by (simp add: render_throws_def analysis_effect_def startAnalysisLoop_def)

lemma page_step_Component:
  "\<not> render_throws (step s ev) \<Longrightarrow> page_step (Mounted s) (Component ev) = Mounted (step s ev)"
  by (simp add: step_def)

text \<open>
  As long as no render throws, the life of the mounted component is the run of its
  events.
\<close>

lemma page_run_mounted:
  "\<forall>k. 0 < k \<and> k \<le> length evs \<longrightarrow> \<not> render_throws (run s (take k evs)) \<Longrightarrow>
     page_run (Mounted s) (map Component evs) = Mounted (run s evs)"
proof (induction evs arbitrary: s)
  case Nil
  then show ?case by (simp add: page_run_def)
next
  case (Cons ev evs)
  have first: "\<not> render_throws (step s ev)"
    using Cons.prems [rule_format, of 1] by (simp add: run_def)
  have rest: "\<forall>k. 0 < k \<and> k \<le> length evs \<longrightarrow> \<not> render_throws (run (step s ev) (take k evs))"
  proof (intro allI impI)
    fix k
    assume k: "0 < k \<and> k \<le> length evs"
    then have "\<not> render_throws (run s (take (Suc k) (ev # evs)))"
      using Cons.prems [rule_format, of "Suc k"] by simp
    then show "\<not> render_throws (run (step s ev) (take k evs))"
      by (simp add: run_Cons)
  qed
  have "page_run (Mounted s) (map Component (ev # evs)) =
        page_run (Mounted (step s ev)) (map Component evs)"
    using first by (simp add: page_run_def page_step_Component del: page_step.simps)
  also have "\<dots> = Mounted (run (step s ev) evs)"
    using rest by (rule Cons.IH)
  finally show ?case by (simp add: run_Cons)
qed

lemma render_completes:
  "\<not> render_throws recording_state" "\<not> render_throws sampled"
  by (simp_all add: render_throws_def sampled_eq recording_state_eq fallback_result_def
      mounted_def initial_monitor_def)

text \<open>
  A logout after one sampling run: the session runs under the id minted at start, the
  cleanup writes its logs under the id minted at mount, and the next login mounts a
  component with yet another id.
\<close>

lemma logout_checkpoint_under_first_id:
  "page_run (Mounted mounted)
     [Component (Start 10 (start_ok ''id-at-start'' 10)),
      Component (AnalysisTick (sample_no_key 15000)), Unmount 20000] =
     Unmounted (unmount 20000 sampled) \<and>
   activeSessionId sampled = ''id-at-start'' \<and>
   effects (unmount 20000 sampled) =
     [SetSessionMeta sample_meta, SaveLogsToDB ''id-at-mount'' [sample_log]] \<and>
   activeSessionId
     (component (page_step (Unmounted (unmount 20000 sampled))
                   (Mount ''employee1'' ''id-at-login'' 50000))) = ''id-at-login''"
proof -
  have f: "firstRenderSessionId sampled = ''id-at-mount''" "status sampled = RECORDING"
    "logs sampled = [sample_log]" "chunksRef sampled = []" "elapsedTime sampled = 0"
    "effects sampled = []" "activeSessionId sampled = ''id-at-start''"
    by (simp_all add: sampled_eq recording_state_eq mounted_def initial_monitor_def)
  have e: "effects (unmount 20000 sampled) =
     [SetSessionMeta sample_meta, SaveLogsToDB ''id-at-mount'' [sample_log]]"
    by (simp add: unmount_effects f sample_meta_def)
  have s1: "page_step (Mounted mounted) (Component (Start 10 (start_ok ''id-at-start'' 10))) =
      Mounted recording_state"
    using render_completes(1) page_step_Component [of mounted "Start 10 (start_ok ''id-at-start'' 10)"]
    by (simp add: recording_state_def del: page_step.simps)
  have s2: "page_step (Mounted recording_state) (Component (AnalysisTick (sample_no_key 15000))) =
      Mounted sampled"
    using render_completes(2)
      page_step_Component [of recording_state "AnalysisTick (sample_no_key 15000)"]
    by (simp add: sampled_def del: page_step.simps)
  have r: "page_run (Mounted mounted)
     [Component (Start 10 (start_ok ''id-at-start'' 10)),
      Component (AnalysisTick (sample_no_key 15000)), Unmount 20000] =
     Unmounted (unmount 20000 sampled)"
    by (simp add: page_run_def s1 s2 del: page_step.simps) simp
  show ?thesis
    using e r by (simp add: f mount_id)
qed

text \<open>
  A second sampling run to which the classifier answers with an empty object: the
  callback puts its log in front of the list, but the render that follows throws in the
  analysis card. The component is unmounted; its cleanup stores the logs as they were
  before that run, under the id minted at mount.
\<close>

lemma render_error_after_empty_object:
  "analyzeSessionContext classifier_empty_object ''AA'' None =
     Resolved (JsObject \<lparr> summary = None, category_of = None, riskLevel = None \<rparr>) \<and>
   length (logs (step sampled (AnalysisTick (sample_empty_object 30000)))) = 2 \<and>
   render_throws (step sampled (AnalysisTick (sample_empty_object 30000))) \<and>
   effects (component
     (page_run (Mounted sampled)
        [Component (AnalysisTick (sample_empty_object 30000)), Unmount 30001])) =
     [SetSessionMeta (sample_meta\<lparr> meta_timestamp := 30001 \<rparr>),
      SaveLogsToDB ''id-at-mount'' [sample_log]]"
proof -
  let ?ob = "\<lparr> summary = None, category_of = None, riskLevel = None \<rparr>"
  have a: "analyzeSessionContext classifier_empty_object ''AA'' None = Resolved (JsObject ?ob)"
    by (simp add: analyzeSessionContext_def analyze_try_def getClient_def
        classifier_empty_object_def)
  have au: "sample_audio (sample_empty_object 30000) sampled = Inr None"
    by (simp add: sample_audio_def sample_empty_object_def sample_no_key_def sampled_eq
        recording_state_eq)
  have t: "analysis_tick (sample_empty_object 30000) sampled =
      record_result (sample_empty_object 30000) (JsObject ?ob) sampled"
    using analysis_tick_classified [of "sample_empty_object 30000" sampled None "JsObject ?ob"]
      au a
    by (simp add: sample_empty_object_def sample_no_key_def)
  have i: "analysisIntervalRef sampled = Some 15000" "status sampled = RECORDING"
    "logs sampled = [sample_log]" "effects sampled = []" "chunksRef sampled = []"
    "elapsedTime sampled = 0" "firstRenderSessionId sampled = ''id-at-mount''"
    by (simp_all add: sampled_eq recording_state_eq mounted_def initial_monitor_def)
  let ?h = "handle (AnalysisTick (sample_empty_object 30000)) sampled"
  have h: "?h = add_log (analysis_log sampled (sample_empty_object 30000) None None None)
                  (sampled\<lparr> currentAnalysis := JsObject ?ob \<rparr>)"
    by (simp add: i t record_result_object)
  have th: "render_throws ?h"
    unfolding h by (simp add: render_throws_def add_log_def i)
  have l: "length (logs (step sampled (AnalysisTick (sample_empty_object 30000)))) = 2"
    unfolding step_def h by (simp add: add_log_def i)
  have th2: "render_throws (step sampled (AnalysisTick (sample_empty_object 30000)))"
    unfolding step_def using th by simp
  have p: "page_run (Mounted sampled)
        [Component (AnalysisTick (sample_empty_object 30000)), Unmount 30001] =
      Unmounted (unmount 30001 (?h\<lparr> status := status sampled, elapsedTime := elapsedTime sampled,
                                       logs := logs sampled \<rparr>))"
    using th by (simp add: page_run_def del: handle.simps)
  have e: "effects (unmount 30001 (?h\<lparr> status := status sampled,
                                          elapsedTime := elapsedTime sampled,
                                          logs := logs sampled \<rparr>)) =
     [SetSessionMeta (sample_meta\<lparr> meta_timestamp := 30001 \<rparr>),
      SaveLogsToDB ''id-at-mount'' [sample_log]]"
    unfolding h
    by (simp add: unmount_effects i add_log_def sample_meta_def)
  show ?thesis
    using a l th2 by (simp only: p e component.simps)
qed

end
